theory Spec2Isabelle
  imports Main "HOL-Library.AList"
begin

section \<open>JavaScript values\<close>

text \<open>
  Credentials, presentations, key documents, schemas and verification results are plain
  JavaScript objects. They are modelled by one value type: an object is an association
  list whose first binding of a key is the value of that property. Numbers are restricted
  to integers. Services (a resolver, the Dock API) are opaque values of the same type:
  the code only tests them for truthiness and hands them to collaborators.
\<close>

datatype jsval =
    JUndefined
  | JNull
  | JBool bool
  | JNum int
  | JStr string
  | JArr "jsval list"
  | JObj "(string \<times> jsval) list"

text \<open>
  A thrown exception. \<open>TypeError\<close> is what the engine throws when a property of
  \<open>undefined\<close> or \<open>null\<close> is read or a non-function is called (its text is the
  engine's wording, here a short description); \<open>Error\<close> is \<open>new Error(msg)\<close>.
\<close>

datatype error = TypeError string | Error string

text \<open>\<open>!!v\<close>\<close>

fun truthy :: "jsval \<Rightarrow> bool" where
  "truthy JUndefined = False"
| "truthy JNull = False"
| "truthy (JBool b) = b"
| "truthy (JNum n) = (n \<noteq> 0)"
| "truthy (JStr s) = (s \<noteq> [])"
| "truthy (JArr xs) = True"
| "truthy (JObj kvs) = True"

text \<open>\<open>v.k\<close> for a fixed property name \<open>k\<close> (none of the names the code reads is an index).\<close>

fun get_prop :: "jsval \<Rightarrow> string \<Rightarrow> error + jsval" where
  "get_prop JUndefined k = Inl (TypeError (''Cannot read property '' @ k @ '' of undefined''))"
| "get_prop JNull k = Inl (TypeError (''Cannot read property '' @ k @ '' of null''))"
| "get_prop (JObj kvs) k = Inr (case map_of kvs k of None \<Rightarrow> JUndefined | Some v \<Rightarrow> v)"
| "get_prop (JArr xs) k = Inr (if k = ''length'' then JNum (int (length xs)) else JUndefined)"
| "get_prop (JStr s) k = Inr (if k = ''length'' then JNum (int (length s)) else JUndefined)"
| "get_prop (JBool b) k = Inr JUndefined"
| "get_prop (JNum n) k = Inr JUndefined"

text \<open>\<open>s.startsWith(p)\<close> and \<open>s.slice(n)\<close> on strings.\<close>

definition startsWith :: "string \<Rightarrow> string \<Rightarrow> bool" where
  "startsWith s p = (take (length p) s = p)"

definition slice :: "string \<Rightarrow> nat \<Rightarrow> string" where
  "slice s n = drop n s"

text \<open>Decimal digits of a natural number, and the string of an integer.\<close>

fun dec :: "nat \<Rightarrow> string" where
  "dec n = (if n < 10 then [char_of (48 + n)] else dec (n div 10) @ [char_of (48 + n mod 10)])"

declare dec.simps [simp del]

definition int_to_string :: "int \<Rightarrow> string" where
  "int_to_string i = (if i < 0 then CHR ''-'' # dec (nat (- i)) else dec (nat i))"

fun join_comma :: "string list \<Rightarrow> string" where
  "join_comma [] = []"
| "join_comma [s] = s"
| "join_comma (s # t # ss) = s @ '','' @ join_comma (t # ss)"

text \<open>The string a template literal \<open>`${v}`\<close> puts in for \<open>v\<close>.\<close>

fun ToString :: "jsval \<Rightarrow> string" where
  "ToString JUndefined = ''undefined''"
| "ToString JNull = ''null''"
| "ToString (JBool b) = (if b then ''true'' else ''false'')"
| "ToString (JNum n) = int_to_string n"
| "ToString (JStr s) = s"
| "ToString (JArr xs) =
     join_comma (map (\<lambda>x. if x = JUndefined \<or> x = JNull then [] else ToString x) xs)"
| "ToString (JObj kvs) = ''[object Object]''"

text \<open>The own enumerable properties an object spread \<open>{...v}\<close> copies.\<close>

fun spread :: "jsval \<Rightarrow> (string \<times> jsval) list" where
  "spread (JObj kvs) = kvs"
| "spread (JArr xs) = zip (map dec [0..<length xs]) xs"
| "spread (JStr s) = zip (map dec [0..<length s]) (map (\<lambda>c. JStr [c]) s)"
| "spread v = []"

text \<open>\<open>v[i]\<close> for a loop index \<open>i\<close>.\<close>

fun get_index :: "jsval \<Rightarrow> nat \<Rightarrow> jsval" where
  "get_index (JArr xs) i = (if i < length xs then xs ! i else JUndefined)"
| "get_index (JStr s) i = (if i < length s then JStr [s ! i] else JUndefined)"
| "get_index (JObj kvs) i = (case map_of kvs (dec i) of None \<Rightarrow> JUndefined | Some v \<Rightarrow> v)"
| "get_index v i = JUndefined"

section \<open>Collaborators of the credential module\<close>

text \<open>
  What the functions of the credential module call but do not define: the key-type names
  and the byte sizes (constants imported from modules outside this development), the hex
  test, the hash, the revocation query of the Dock API, the verifiers of the VC library,
  the schema fetch, the JSON-schema validator, and the coercion of a non-number to a
  number in a comparison.
\<close>

record env =
  EcdsaSecp256k1VerKeyName :: string
  Ed25519VerKeyName :: string
  Sr25519VerKeyName :: string
  RevRegIdByteSize :: nat
  RevEntryByteSize :: nat
  isHexWithGivenByteSize :: "string \<Rightarrow> nat \<Rightarrow> bool"
  blake2AsHex :: "jsval \<Rightarrow> nat \<Rightarrow> error + jsval"
  getIsRevoked :: "jsval \<Rightarrow> jsval \<Rightarrow> jsval \<Rightarrow> error + jsval"
  vcjs_verifyCredential :: "jsval \<Rightarrow> jsval \<Rightarrow> jsval \<Rightarrow> error + jsval"
  vcjs_verify :: "jsval \<Rightarrow> jsval \<Rightarrow> jsval \<Rightarrow> jsval \<Rightarrow> jsval \<Rightarrow> error + jsval"
  Schema_get :: "jsval \<Rightarrow> jsval \<Rightarrow> error + jsval"
  validate :: "jsval \<Rightarrow> jsval \<Rightarrow> error + unit"
  ToNumber :: "jsval \<Rightarrow> int option"

section \<open>Suite selection\<close>

datatype suite_class = EcdsaSepc256k1Signature2019 | Ed25519Signature2018 | Sr25519Signature2020

text \<open>A suite instance: its class and the options object its constructor was given.\<close>

record suite =
  suite_class :: suite_class
  suite_options :: jsval

definition new_suite :: "suite_class \<Rightarrow> jsval \<Rightarrow> jsval \<Rightarrow> suite" where
  "new_suite Cls keyDoc keyId =
     \<lparr>suite_class = Cls,
      suite_options = JObj (AList.update ''verificationMethod'' keyId (spread keyDoc))\<rparr>"

definition getSuiteFromKeyDoc :: "env \<Rightarrow> jsval \<Rightarrow> error + suite" where
  "getSuiteFromKeyDoc E keyDoc =
     (case get_prop keyDoc ''type'' of
        Inl e \<Rightarrow> Inl e
      | Inr t \<Rightarrow>
          (case (if t = JStr (EcdsaSecp256k1VerKeyName E) then Inr EcdsaSepc256k1Signature2019
                 else if t = JStr (Ed25519VerKeyName E) then Inr Ed25519Signature2018
                 else if t = JStr (Sr25519VerKeyName E) then Inr Sr25519Signature2020
                 else Inl (Error (''Unknown key type '' @ ToString t @ ''.''))) of
             Inl e \<Rightarrow> Inl e
           | Inr Cls \<Rightarrow>
               (case get_prop keyDoc ''id'' of
                  Inl e \<Rightarrow> Inl e
                | Inr keyId \<Rightarrow> Inr (new_suite Cls keyDoc keyId))))"

section \<open>Revocation\<close>

definition RevRegType :: string where
  "RevRegType = ''CredentialStatusList2017''"

definition DockRevRegQualifier :: string where
  "DockRevRegQualifier = ''rev-reg:dock:''"

text \<open>Sequencing of calls that may throw: the first exception ends the computation.\<close>

definition bindE :: "error + 'a \<Rightarrow> ('a \<Rightarrow> error + 'b) \<Rightarrow> error + 'b" where
  "bindE m f = (case m of Inl e \<Rightarrow> Inl e | Inr x \<Rightarrow> f x)"

text \<open>
  \<open>v.startsWith(p)\<close> and \<open>v.slice(n)\<close> on any value: only a string has these methods,
  reading them off \<open>undefined\<close> or \<open>null\<close> throws, and calling what is not a function
  throws.
\<close>

fun call_startsWith :: "jsval \<Rightarrow> string \<Rightarrow> error + bool" where
  "call_startsWith (JStr s) p = Inr (startsWith s p)"
| "call_startsWith JUndefined p = Inl (TypeError ''Cannot read property startsWith of undefined'')"
| "call_startsWith JNull p = Inl (TypeError ''Cannot read property startsWith of null'')"
| "call_startsWith v p = Inl (TypeError ''startsWith is not a function'')"

fun call_slice :: "jsval \<Rightarrow> nat \<Rightarrow> error + string" where
  "call_slice (JStr s) n = Inr (slice s n)"
| "call_slice JUndefined n = Inl (TypeError ''Cannot read property slice of undefined'')"
| "call_slice JNull n = Inl (TypeError ''Cannot read property slice of null'')"
| "call_slice v n = Inl (TypeError ''slice is not a function'')"

text \<open>\<open>a && b && c && d\<close>: the first falsy operand, else the last one.\<close>

definition hasDockRevocation :: "env \<Rightarrow> jsval \<Rightarrow> error + jsval" where
  "hasDockRevocation E credential =
     bindE (get_prop credential ''credentialStatus'') (\<lambda>cs.
       if \<not> truthy cs then Inr cs
       else bindE (get_prop cs ''type'') (\<lambda>t.
         if t \<noteq> JStr RevRegType then Inr (JBool False)
         else bindE (get_prop cs ''id'') (\<lambda>i.
           bindE (call_startsWith i DockRevRegQualifier) (\<lambda>b.
             if \<not> b then Inr (JBool False)
             else bindE (call_slice i (length DockRevRegQualifier)) (\<lambda>rest.
               Inr (JBool (isHexWithGivenByteSize E rest (RevRegIdByteSize E))))))))"

definition isRevocationCheckNeeded :: "jsval \<Rightarrow> jsval \<Rightarrow> jsval \<Rightarrow> jsval" where
  "isRevocationCheckNeeded credStatus forceRevocationCheck revocationApi =
     (if \<not> truthy credStatus then JBool False
      else if truthy forceRevocationCheck then forceRevocationCheck
      else JBool (truthy revocationApi))"

definition getDockRevIdFromCredential :: "env \<Rightarrow> jsval \<Rightarrow> error + jsval" where
  "getDockRevIdFromCredential E credential =
     bindE (get_prop credential ''id'') (\<lambda>cid. blake2AsHex E cid (RevEntryByteSize E * 8))"

definition formatVerdict :: jsval where
  "formatVerdict = JObj [(''verified'', JBool False),
     (''error'', JStr ''The credential status does not have the format required by Dock'')]"

definition revokedVerdict :: jsval where
  "revokedVerdict = JObj [(''verified'', JBool False), (''error'', JStr ''Revocation check failed'')]"

definition notRevokedVerdict :: jsval where
  "notRevokedVerdict = JObj [(''verified'', JBool True)]"

definition checkRevocationStatus :: "env \<Rightarrow> jsval \<Rightarrow> jsval \<Rightarrow> error + jsval" where
  "checkRevocationStatus E credential revocationApi =
     bindE (get_prop revocationApi ''dock'') (\<lambda>dockAPI.
       if \<not> truthy dockAPI then Inl (Error ''Only Dock revocation support is present as of now.'')
       else bindE (hasDockRevocation E credential) (\<lambda>h.
         if \<not> truthy h then Inr formatVerdict
         else bindE (get_prop credential ''credentialStatus'') (\<lambda>cs.
           bindE (get_prop cs ''id'') (\<lambda>i.
           bindE (call_slice i (length DockRevRegQualifier)) (\<lambda>regId.
           bindE (getDockRevIdFromCredential E credential) (\<lambda>revId.
           bindE (getIsRevoked E dockAPI (JStr regId) revId) (\<lambda>revocationStatus.
             if truthy revocationStatus then Inr revokedVerdict
             else Inr notRevokedVerdict)))))))"

section \<open>Schema validation of a credential\<close>

text \<open>\<open>`${e}`\<close> for a thrown error.\<close>

fun error_to_string :: "error \<Rightarrow> string" where
  "error_to_string (TypeError m) = (if m = [] then ''TypeError'' else ''TypeError: '' @ m)"
| "error_to_string (Error m) = (if m = [] then ''Error'' else ''Error: '' @ m)"

text \<open>\<open>s.indexOf(p) > -1\<close> on strings: \<open>p\<close> occurs in \<open>s\<close>.\<close>

fun occurs_in :: "string \<Rightarrow> string \<Rightarrow> bool" where
  "occurs_in p [] = (p = [])"
| "occurs_in p (c # cs) = (startsWith (c # cs) p \<or> occurs_in p cs)"

text \<open>\<open>v.indexOf('id') > -1\<close>: an array and a string have \<open>indexOf\<close>, nothing else has.\<close>

fun indexOf_id_found :: "jsval \<Rightarrow> error + bool" where
  "indexOf_id_found (JArr xs) = Inr (JStr ''id'' \<in> set xs)"
| "indexOf_id_found (JStr s) = Inr (occurs_in ''id'' s)"
| "indexOf_id_found JUndefined = Inl (TypeError ''Cannot read property indexOf of undefined'')"
| "indexOf_id_found JNull = Inl (TypeError ''Cannot read property indexOf of null'')"
| "indexOf_id_found v = Inl (TypeError ''indexOf is not a function'')"

text \<open>
  How often the body of \<open>for (let i = 0; i < n; i++)\<close> runs: \<open>n\<close> is a number, or is made
  one by the comparison (not a number: never).
\<close>

definition loopCount :: "env \<Rightarrow> jsval \<Rightarrow> nat" where
  "loopCount E n =
     (case n of
        JNum k \<Rightarrow> nat k
      | JUndefined \<Rightarrow> 0
      | v \<Rightarrow> (case ToNumber E v of None \<Rightarrow> 0 | Some k \<Rightarrow> nat k))"

text \<open>The values \<open>xs[0]\<close>, \<open>xs[1]\<close>, ... that \<open>for (let i = 0; i < xs.length; i++)\<close> visits.\<close>

definition indexed :: "env \<Rightarrow> jsval \<Rightarrow> error + jsval list" where
  "indexed E xs = bindE (get_prop xs ''length'') (\<lambda>n. Inr (map (get_index xs) [0..<loopCount E n]))"

text \<open>\<open>requiresID\<close>, \<open>subjects\<close> and the copy of a subject that is handed to \<open>validate\<close>.\<close>

definition requiresID :: "jsval \<Rightarrow> error + jsval" where
  "requiresID schema =
     bindE (get_prop schema ''required'') (\<lambda>req.
       if \<not> truthy req then Inr req
       else bindE (indexOf_id_found req) (\<lambda>b. Inr (JBool b)))"

definition subjectsOf :: "jsval \<Rightarrow> error + jsval" where
  "subjectsOf credential =
     bindE (get_prop credential ''credentialSubject'') (\<lambda>cs0.
       let credentialSubject = (if truthy cs0 then cs0 else JArr []) in
       bindE (get_prop credentialSubject ''length'') (\<lambda>l.
         Inr (if truthy l then credentialSubject else JArr [credentialSubject])))"

definition subjectCopy :: "jsval \<Rightarrow> jsval \<Rightarrow> jsval" where
  "subjectCopy reqID subject =
     JObj (if \<not> truthy reqID then AList.delete ''id'' (spread subject) else spread subject)"

text \<open>The arguments of the calls of \<open>validate\<close>, in order: the subject copies.\<close>

definition validatedSubjects :: "env \<Rightarrow> jsval \<Rightarrow> jsval \<Rightarrow> error + jsval list" where
  "validatedSubjects E credential schema =
     bindE (requiresID schema) (\<lambda>reqID.
     bindE (subjectsOf credential) (\<lambda>subjects.
     bindE (indexed E subjects) (\<lambda>ss. Inr (map (subjectCopy reqID) ss))))"

fun validateEach :: "env \<Rightarrow> jsval \<Rightarrow> jsval list \<Rightarrow> error + jsval" where
  "validateEach E target [] = Inr (JBool True)"
| "validateEach E target (s # ss) =
     bindE (validate E s target) (\<lambda>_. validateEach E target ss)"

definition validateCredentialSchema :: "env \<Rightarrow> jsval \<Rightarrow> jsval \<Rightarrow> error + jsval" where
  "validateCredentialSchema E credential schema =
     bindE (validatedSubjects E credential schema) (\<lambda>copies.
     bindE (get_prop schema ''schema'') (\<lambda>inner.
       validateEach E (if truthy inner then inner else schema) copies))"

definition getAndValidateSchemaIfPresent :: "env \<Rightarrow> jsval \<Rightarrow> jsval \<Rightarrow> error + unit" where
  "getAndValidateSchemaIfPresent E credential schemaApi =
     (if truthy schemaApi then
        bindE (get_prop credential ''credentialSubject'') (\<lambda>subj.
          if \<not> truthy subj then Inr ()
          else bindE (get_prop credential ''credentialSchema'') (\<lambda>sch.
            if \<not> truthy sch then Inr ()
            else bindE (get_prop schemaApi ''dock'') (\<lambda>dock.
              if \<not> truthy dock then Inl (Error ''Only Dock schemas are supported as of now.'')
              else (case bindE (get_prop sch ''id'') (\<lambda>sid.
                         bindE (Schema_get E sid dock) (\<lambda>schema.
                           validateCredentialSchema E credential schema)) of
                      Inl e \<Rightarrow> Inl (Error (''Schema validation failed: '' @ error_to_string e))
                    | Inr _ \<Rightarrow> Inr ()))))
      else Inr ())"

section \<open>Verification of credentials and presentations\<close>

text \<open>
  The options of a verification call. A field the caller leaves out is \<open>undefined\<close> and
  takes its default.
\<close>

record params =
  challenge :: jsval
  domain :: jsval
  resolver :: jsval
  compactProof :: jsval
  forceRevocationCheck :: jsval
  revocationApi :: jsval
  schemaApi :: jsval

definition dflt :: "jsval \<Rightarrow> jsval \<Rightarrow> jsval" where
  "dflt d v = (if v = JUndefined then d else v)"

definition noParams :: params where
  "noParams = \<lparr>challenge = JUndefined, domain = JUndefined, resolver = JUndefined,
     compactProof = JUndefined, forceRevocationCheck = JUndefined, revocationApi = JUndefined,
     schemaApi = JUndefined\<rparr>"

definition verifyCredential :: "env \<Rightarrow> jsval \<Rightarrow> params \<Rightarrow> error + jsval" where
  "verifyCredential E credential P =
     (let resolver' = dflt JNull (resolver P); compactProof' = dflt (JBool True) (compactProof P);
          forceRevocationCheck' = dflt (JBool True) (forceRevocationCheck P);
          revocationApi' = dflt JNull (revocationApi P); schemaApi' = dflt JNull (schemaApi P) in
      bindE (getAndValidateSchemaIfPresent E credential schemaApi') (\<lambda>_.
      bindE (vcjs_verifyCredential E credential resolver' compactProof') (\<lambda>credVer.
      bindE (get_prop credVer ''verified'') (\<lambda>v.
        if \<not> truthy v then Inr credVer
        else bindE (get_prop credential ''credentialStatus'') (\<lambda>cs.
          if \<not> truthy (isRevocationCheckNeeded cs forceRevocationCheck' revocationApi')
          then Inr credVer
          else bindE (checkRevocationStatus E credential revocationApi') (\<lambda>revResult.
            bindE (get_prop revResult ''verified'') (\<lambda>rv.
              if \<not> truthy rv then Inr revResult else Inr credVer)))))))"

text \<open>
  The body of the loop of \<open>verifyPresentation\<close> for one credential: \<open>Some res\<close> when the
  loop returns \<open>res\<close>, \<open>None\<close> when it goes on to the next credential.
\<close>

definition checkPresentedCredential ::
  "env \<Rightarrow> jsval \<Rightarrow> jsval \<Rightarrow> jsval \<Rightarrow> jsval \<Rightarrow> error + jsval option" where
  "checkPresentedCredential E forceRevocationCheck' revocationApi' schemaApi' credential =
     bindE (get_prop credential ''credentialStatus'') (\<lambda>cs.
     bindE (if truthy (isRevocationCheckNeeded cs forceRevocationCheck' revocationApi')
            then bindE (checkRevocationStatus E credential revocationApi') (\<lambda>res.
                   bindE (get_prop res ''verified'') (\<lambda>rv.
                     Inr (if \<not> truthy rv then Some res else None)))
            else Inr None) (\<lambda>r.
       case r of
         Some res \<Rightarrow> Inr (Some res)
       | None \<Rightarrow> bindE (getAndValidateSchemaIfPresent E credential schemaApi') (\<lambda>_. Inr None)))"

fun checkPresentedCredentials ::
  "env \<Rightarrow> jsval \<Rightarrow> jsval \<Rightarrow> jsval \<Rightarrow> jsval \<Rightarrow> jsval list \<Rightarrow> error + jsval" where
  "checkPresentedCredentials E force rApi sApi presVer [] = Inr presVer"
| "checkPresentedCredentials E force rApi sApi presVer (c # cs) =
     (case checkPresentedCredential E force rApi sApi c of
        Inl e \<Rightarrow> Inl e
      | Inr (Some res) \<Rightarrow> Inr res
      | Inr None \<Rightarrow> checkPresentedCredentials E force rApi sApi presVer cs)"

definition verifyPresentation :: "env \<Rightarrow> jsval \<Rightarrow> params \<Rightarrow> error + jsval" where
  "verifyPresentation E presentation P =
     (let resolver' = dflt JNull (resolver P); compactProof' = dflt (JBool True) (compactProof P);
          forceRevocationCheck' = dflt (JBool True) (forceRevocationCheck P);
          revocationApi' = dflt JNull (revocationApi P); schemaApi' = dflt JNull (schemaApi P) in
      bindE (vcjs_verify E presentation (challenge P) (domain P) resolver' compactProof') (\<lambda>presVer.
      bindE (get_prop presVer ''verified'') (\<lambda>v.
        if \<not> truthy v then Inr presVer
        else bindE (get_prop presentation ''verifiableCredential'') (\<lambda>credentials.
          bindE (indexed E credentials) (\<lambda>cs.
            checkPresentedCredentials E forceRevocationCheck' revocationApi' schemaApi' presVer cs)))))"

section \<open>Import of a schema and the schemas it refers to\<close>

definition BlobQualifier :: string where
  "BlobQualifier = ''blob:dock:''"

text \<open>
  The validator of the JSON-schema library: the schemas it holds and its queue of
  references it has not resolved, which the import reads with \<open>shift\<close>. Its
  \<open>addSchema\<close>, the test whether a string parses as a URL and the fetch of a URL are
  collaborators.
\<close>

record validator =
  schemas :: "(string \<times> jsval) list"
  unresolvedRefs :: "string list"

record schema_env =
  isURL :: "string \<Rightarrow> bool"
  fetchJSONFromUrl :: "string \<Rightarrow> error + jsval"
  addSchema :: "validator \<Rightarrow> jsval \<Rightarrow> validator"

text \<open>
  What a run does besides computing: a line on the console, a call of \<open>resolveSchema\<close>,
  a call of the fetch.
\<close>

datatype event = Console string jsval | ResolveCall string | FetchJSON string

definition getSchema :: "string \<Rightarrow> jsval \<Rightarrow> error + jsval" where
  "getSchema schemaId dockApi =
     (if schemaId = ''invalid-format'' then Inl (Error ''Incorrect schema format'')
      else if schemaId = ''invalid-id'' then Inl (Error (''Invalid schema id '' @ schemaId))
      else Inr (JObj []))"

text \<open>\<open>resolveSchema\<close>: the events of the call and its result.\<close>

definition resolveSchema :: "schema_env \<Rightarrow> string \<Rightarrow> jsval \<Rightarrow> event list \<times> (error + jsval)" where
  "resolveSchema S schemaId schemaAPI =
     (if isURL S schemaId then ([FetchJSON schemaId], fetchJSONFromUrl S schemaId)
      else if \<not> startsWith schemaId BlobQualifier
        then ([], Inl (Error (''Schema id should begin with '' @ BlobQualifier)))
      else (case get_prop schemaAPI ''dock'' of
              Inl e \<Rightarrow> ([], Inl e)
            | Inr dockAPI \<Rightarrow>
                if \<not> truthy dockAPI
                then ([], Inl (Error ''Only Dock schema support is present as of now.''))
                else (case getSchema schemaId dockAPI of
                        Inl e \<Rightarrow> ([], Inl e)
                      | Inr schema \<Rightarrow> ([FetchJSON schemaId], fetchJSONFromUrl S schemaId))))"

text \<open>
  How a run of the import ends. The recursion of \<open>importNextSchema\<close> has no bound in the
  code; the model counts its calls down from a given number, and \<open>OutOfFuel\<close> says that
  the run was still going after that many calls.
\<close>

datatype outcome = Completed | Raised error | OutOfFuel

definition canonicalId :: "string \<Rightarrow> string" where
  "canonicalId nextSchemaId =
     (if startsWith nextSchemaId ''blob:dock/:''
      then BlobQualifier @ slice nextSchemaId (length ''blob:dock/:'')
      else nextSchemaId)"

fun importNextSchema ::
  "nat \<Rightarrow> schema_env \<Rightarrow> string \<Rightarrow> jsval \<Rightarrow> validator \<Rightarrow> event list
     \<Rightarrow> outcome \<times> validator \<times> event list" where
  "importNextSchema 0 S defsPrefix schemaAPI V log = (OutOfFuel, V, log)"
| "importNextSchema (Suc n) S defsPrefix schemaAPI V log =
     (case unresolvedRefs V of
        [] \<Rightarrow> (Completed, V, log @ [Console ''nextSchemaId'' JUndefined])
      | r # rest \<Rightarrow>
          (let V1 = V\<lparr>unresolvedRefs := rest\<rparr>;
               log1 = log @ [Console ''nextSchemaId'' (JStr r)] in
           if r = [] then (Completed, V1, log1)
           else if \<not> startsWith (canonicalId r) defsPrefix then
             (case resolveSchema S (canonicalId r) schemaAPI of
                (evs, Inl e) \<Rightarrow> (Raised e, V1, log1 @ ResolveCall (canonicalId r) # evs)
              | (evs, Inr nextSchema) \<Rightarrow>
                  importNextSchema n S defsPrefix schemaAPI (addSchema S V1 nextSchema)
                    (log1 @ ResolveCall (canonicalId r) # evs))
           else importNextSchema n S defsPrefix schemaAPI V1 log1))"

definition updateSchemaValidatorWithSchemas ::
  "nat \<Rightarrow> schema_env \<Rightarrow> validator \<Rightarrow> jsval \<Rightarrow> jsval \<Rightarrow> outcome \<times> validator \<times> event list" where
  "updateSchemaValidatorWithSchemas n S V initialSchema schemaAPI =
     (let V0 = addSchema S V initialSchema in
      case get_prop initialSchema ''id'' of
        Inl e \<Rightarrow> (Raised e, V0, [])
      | Inr i \<Rightarrow>
          (let initialSchemaId = (if truthy i then i else JStr ''/'') in
           importNextSchema n S (ToString initialSchemaId @ ''#/$defs'') schemaAPI V0
             [Console ''initialSchemaId'' initialSchemaId]))"

text \<open>The references a run has taken off the queue, in order, as the console shows them.\<close>

fun shifted :: "event list \<Rightarrow> string list" where
  "shifted [] = []"
| "shifted (Console l (JStr r) # evs) =
     (if l = ''nextSchemaId'' then r # shifted evs else shifted evs)"
| "shifted (ev # evs) = shifted evs"

text \<open>The calls of \<open>resolveSchema\<close> and of the fetch in a run.\<close>

fun externalCalls :: "event list \<Rightarrow> event list" where
  "externalCalls [] = []"
| "externalCalls (Console l v # evs) = externalCalls evs"
| "externalCalls (ev # evs) = ev # externalCalls evs"

section \<open>Example collaborators and documents\<close>

text \<open>
  Concrete collaborators on which the theorems below are run. The key-type names are the
  ones the issuing tests pass; the sizes are the 32 bytes of a registry id and of a
  revocation id.
\<close>

text \<open>
  Modelled from the spec: \<open>isHexWithGivenByteSize\<close> is imported from a module that is not
  part of the sources. The spec has the registry id as fixed-width hex of the given byte
  size; as in the ids the tests generate, the digits follow \<open>0x\<close>.
\<close>

definition isHexOfByteSize :: "string \<Rightarrow> nat \<Rightarrow> bool" where
  "isHexOfByteSize s byteSize =
     (take 2 s = ''0x'' \<and> length s = 2 + 2 * byteSize
      \<and> list_all (\<lambda>c. c \<in> set ''0123456789abcdefABCDEF'') (drop 2 s))"

text \<open>A validator that only checks that the properties a schema requires are there.\<close>

definition validateRequired :: "jsval \<Rightarrow> jsval \<Rightarrow> error + unit" where
  "validateRequired instance schema =
     (case get_prop schema ''required'' of
        Inr (JArr names) \<Rightarrow>
          (case filter (\<lambda>n. map_of (spread instance) (ToString n) = None) names of
             [] \<Rightarrow> Inr ()
           | n # ns \<Rightarrow> Inl (Error (''requires property '' @ ToString n)))
      | _ \<Rightarrow> Inr ())"

text \<open>
  The example collaborators: the VC library answers \<open>credVer\<close> to every verification,
  the registry holds the pairs \<open>revoked\<close>, every schema id resolves to \<open>schema\<close>, and the
  hash is a tagged copy of its input.
\<close>

definition exampleEnv :: "jsval \<Rightarrow> (jsval \<times> jsval) list \<Rightarrow> jsval \<Rightarrow> env" where
  "exampleEnv credVer revoked schema =
     \<lparr>EcdsaSecp256k1VerKeyName = ''EcdsaSecp256k1VerificationKey2019'',
      Ed25519VerKeyName = ''Ed25519VerificationKey2018'',
      Sr25519VerKeyName = ''Sr25519VerificationKey2020'',
      RevRegIdByteSize = 32,
      RevEntryByteSize = 32,
      isHexWithGivenByteSize = isHexOfByteSize,
      blake2AsHex = (\<lambda>v bits. Inr (JStr (''blake2:'' @ ToString v))),
      getIsRevoked = (\<lambda>dockAPI regId revId. Inr (JBool ((regId, revId) \<in> set revoked))),
      vcjs_verifyCredential = (\<lambda>credential resolver compact. Inr credVer),
      vcjs_verify = (\<lambda>presentation chal dom resolver compact. Inr credVer),
      Schema_get = (\<lambda>schemaId dockApi. Inr schema),
      validate = validateRequired,
      ToNumber = (\<lambda>v. None)\<rparr>"

definition verifiedResult :: jsval where
  "verifiedResult =
     JObj [(''verified'', JBool True),
           (''results'', JArr [JObj [(''proof'', JObj []), (''verified'', JBool True)]])]"

definition failedResult :: jsval where
  "failedResult = JObj [(''verified'', JBool False), (''error'', JStr ''Invalid signature.'')]"

definition exampleRegistryId :: string where
  "exampleRegistryId = ''0x00112233445566778899aabbccddeeff00112233445566778899aabbccddeeff''"

text \<open>The credential of the issuing tests, with further properties put in front.\<close>

definition exampleCredential :: "string \<Rightarrow> (string \<times> jsval) list \<Rightarrow> jsval" where
  "exampleCredential credId extra =
     JObj (extra @
       [(''id'', JStr credId),
        (''type'', JArr [JStr ''VerifiableCredential'', JStr ''AlumniCredential'']),
        (''issuer'', JStr ''did:dock:issuer''),
        (''issuanceDate'', JStr ''2020-03-18T19:23:24Z''),
        (''credentialSubject'',
           JObj [(''id'', JStr ''did:dock:holder''), (''alumniOf'', JStr ''Example University'')])])"

definition exampleStatus :: jsval where
  "exampleStatus =
     JObj [(''id'', JStr (DockRevRegQualifier @ exampleRegistryId)), (''type'', JStr RevRegType)]"

definition exampleDockApi :: jsval where
  "exampleDockApi = JObj [(''dock'', JObj [(''revocation'', JObj [])])]"

definition exampleKeyDoc :: "string \<Rightarrow> jsval" where
  "exampleKeyDoc keyType =
     JObj [(''id'', JStr ''did:dock:issuer#keys-1''), (''controller'', JStr ''did:dock:issuer''),
           (''type'', JStr keyType), (''publicKeyBase58'', JStr ''pk'')]"

text \<open>
  A schema that requires a property the example subject has not, the reference a
  credential makes to it, a schema API with a Dock entry, and a presentation.
\<close>

definition degreeSchema :: jsval where
  "degreeSchema =
     JObj [(''$schema'', JStr ''http://json-schema.org/draft-07/schema#''),
           (''type'', JStr ''object''),
           (''required'', JArr [JStr ''degree''])]"

definition exampleSchemaRef :: jsval where
  "exampleSchemaRef =
     JObj [(''id'', JStr ''blob:dock:5C78GCA''), (''type'', JStr ''JsonSchemaValidator2018'')]"

definition exampleSchemaApi :: jsval where
  "exampleSchemaApi = JObj [(''dock'', JObj [(''blob'', JObj [])])]"

definition examplePresentation :: "jsval list \<Rightarrow> jsval" where
  "examplePresentation credentials =
     JObj [(''type'', JArr [JStr ''VerifiablePresentation'']),
           (''verifiableCredential'', JArr credentials)]"

text \<open>
  An example \<open>addSchema\<close>, after the library's: it registers the schema under its
  \<open>id\<close>, puts the references of the schema's properties at the end of the queue, and
  takes the registered ids out of the queue.
\<close>

definition schemaRefs :: "jsval \<Rightarrow> string list" where
  "schemaRefs schema =
     (case get_prop schema ''properties'' of
        Inr (JObj props) \<Rightarrow>
          concat (map (\<lambda>(k, p). case get_prop p ''$ref'' of Inr (JStr r) \<Rightarrow> [r] | _ \<Rightarrow> []) props)
      | _ \<Rightarrow> [])"

definition exampleAddSchema :: "validator \<Rightarrow> jsval \<Rightarrow> validator" where
  "exampleAddSchema V schema =
     (let held = (case get_prop schema ''id'' of
                    Inr (JStr i) \<Rightarrow> schemas V @ [(i, schema)]
                  | _ \<Rightarrow> schemas V)
      in \<lparr>schemas = held,
          unresolvedRefs = filter (\<lambda>u. map_of held u = None) (unresolvedRefs V @ schemaRefs schema)\<rparr>)"

definition emptyValidator :: validator where
  "emptyValidator = \<lparr>schemas = [], unresolvedRefs = []\<rparr>"

text \<open>A schema with the given id whose properties refer to the given ids.\<close>

definition schemaWithRefs :: "string \<Rightarrow> string list \<Rightarrow> jsval" where
  "schemaWithRefs i refs =
     JObj [(''id'', JStr i), (''type'', JStr ''object''),
           (''properties'', JObj (map (\<lambda>r. (r, JObj [(''$ref'', JStr r)])) refs))]"

text \<open>
  A schema server on which every schema refers to one more schema: the schema at \<open>u\<close>
  has the id \<open>u\<close> and refers to \<open>u\<close> followed by \<open>s\<close>.
\<close>

definition chainEnv :: schema_env where
  "chainEnv =
     \<lparr>isURL = (\<lambda>u. startsWith u ''http://''),
      fetchJSONFromUrl = (\<lambda>u. Inr (schemaWithRefs u [u @ ''s''])),
      addSchema = exampleAddSchema\<rparr>"


text \<open>A schema that requires a name, and a subject that has a name and a length.\<close>

definition nameSchema :: jsval where
  "nameSchema =
     JObj [(''$schema'', JStr ''http://json-schema.org/draft-07/schema#''),
           (''type'', JStr ''object''),
           (''required'', JArr [JStr ''name''])]"

definition pipeSubject :: jsval where
  "pipeSubject =
     JObj [(''id'', JStr ''did:dock:holder''), (''name'', JStr ''pipe''), (''length'', JNum 2)]"

text \<open>The identifiers under which the validator holds a schema.\<close>

definition registered :: "validator \<Rightarrow> string set" where
  "registered V = fst ` set (schemas V)"


section \<open>Basic facts\<close>

lemma bindE_simps [simp]: "bindE (Inl e) f = Inl e" "bindE (Inr x) f = f x"
  by (simp_all add: bindE_def)

section \<open>Suite selection\<close>

text \<open>
  Claim C4. For a key document whose \<open>type\<close> is one of the three recognised key-type
  names, \<open>getSuiteFromKeyDoc\<close> returns a suite whose \<open>verificationMethod\<close> is the
  document's \<open>id\<close>; for any other \<open>type\<close> it throws an error whose message names that
  type.
\<close>

theorem getSuiteFromKeyDoc_selects:
  assumes "get_prop keyDoc ''type'' = Inr t"
  shows "(t \<in> {JStr (EcdsaSecp256k1VerKeyName E), JStr (Ed25519VerKeyName E),
               JStr (Sr25519VerKeyName E)}
          \<longrightarrow> (\<exists>s. getSuiteFromKeyDoc E keyDoc = Inr s
                 \<and> get_prop (suite_options s) ''verificationMethod'' = get_prop keyDoc ''id''))
       \<and> (t \<notin> {JStr (EcdsaSecp256k1VerKeyName E), JStr (Ed25519VerKeyName E),
                 JStr (Sr25519VerKeyName E)}
          \<longrightarrow> getSuiteFromKeyDoc E keyDoc
                = Inl (Error (''Unknown key type '' @ ToString t @ ''.'')))"
  using assms
  by (cases keyDoc)
    (auto simp: getSuiteFromKeyDoc_def new_suite_def update_conv' split: if_splits option.splits)

theorem getSuiteFromKeyDoc_selects_witness:
  "(\<exists>s. getSuiteFromKeyDoc (exampleEnv verifiedResult [] JNull)
           (exampleKeyDoc ''Sr25519VerificationKey2020'') = Inr s
        \<and> suite_class s = Sr25519Signature2020
        \<and> get_prop (suite_options s) ''verificationMethod''
            = Inr (JStr ''did:dock:issuer#keys-1''))
   \<and> getSuiteFromKeyDoc (exampleEnv verifiedResult [] JNull)
        (exampleKeyDoc ''RsaVerificationKey2018'')
        = Inl (Error ''Unknown key type RsaVerificationKey2018.'')"
  using
    getSuiteFromKeyDoc_selects [of "exampleKeyDoc ''Sr25519VerificationKey2020''"
      "JStr ''Sr25519VerificationKey2020''" "exampleEnv verifiedResult [] JNull"]
    getSuiteFromKeyDoc_selects [of "exampleKeyDoc ''RsaVerificationKey2018''"
      "JStr ''RsaVerificationKey2018''" "exampleEnv verifiedResult [] JNull"]
  by (auto simp: exampleKeyDoc_def exampleEnv_def getSuiteFromKeyDoc_def new_suite_def)

section \<open>Whether a revocation check is needed\<close>

text \<open>
  Claim C5. With a boolean \<open>forceRevocationCheck\<close>, \<open>isRevocationCheckNeeded\<close> returns
  \<open>true\<close> if and only if the status is truthy and the check is forced or the revocation
  API is truthy. For a status that is an object or absent and a service that is an object
  or absent, that is: the status exists, and the check is forced or a service was
  supplied. An empty service object counts as supplied.
\<close>

theorem isRevocationCheckNeeded_iff:
  "isRevocationCheckNeeded credStatus (JBool forceCheck) service
     = JBool (truthy credStatus \<and> (forceCheck \<or> truthy service))
   \<and> isRevocationCheckNeeded (case status of None \<Rightarrow> JUndefined | Some kvs \<Rightarrow> JObj kvs)
        (JBool forceCheck) (case svc of None \<Rightarrow> JNull | Some m \<Rightarrow> JObj m)
     = JBool (status \<noteq> None \<and> (forceCheck \<or> svc \<noteq> None))
   \<and> isRevocationCheckNeeded (JObj kvs) (JBool False) (JObj []) = JBool True"
  by (simp add: isRevocationCheckNeeded_def split: option.splits)

section \<open>The revocation check\<close>

lemma startsWith_append [simp]: "startsWith (p @ s) p"
  by (simp add: startsWith_def)

lemma slice_append [simp]: "slice (p @ s) (length p) = s"
  by (simp add: slice_def)

lemma verdict_verified [simp]:
  "get_prop formatVerdict ''verified'' = Inr (JBool False)"
  "get_prop revokedVerdict ''verified'' = Inr (JBool False)"
  "get_prop notRevokedVerdict ''verified'' = Inr (JBool True)"
  by (simp_all add: formatVerdict_def revokedVerdict_def notRevokedVerdict_def)

lemma hasDockRevocation_no_status:
  "get_prop credential ''credentialStatus'' = Inr cs \<Longrightarrow> \<not> truthy cs
   \<Longrightarrow> hasDockRevocation E credential = Inr cs"
  by (simp add: hasDockRevocation_def)

lemma hasDockRevocation_wrong_type:
  "get_prop credential ''credentialStatus'' = Inr cs \<Longrightarrow> truthy cs
   \<Longrightarrow> get_prop cs ''type'' \<noteq> Inr (JStr RevRegType)
   \<Longrightarrow> hasDockRevocation E credential = Inr (JBool False)"
  by (cases cs) (auto simp: hasDockRevocation_def)

lemma hasDockRevocation_string_id:
  "get_prop credential ''credentialStatus'' = Inr cs \<Longrightarrow> truthy cs
   \<Longrightarrow> get_prop cs ''type'' = Inr (JStr RevRegType) \<Longrightarrow> get_prop cs ''id'' = Inr (JStr i)
   \<Longrightarrow> hasDockRevocation E credential
       = Inr (JBool (startsWith i DockRevRegQualifier
            \<and> isHexWithGivenByteSize E (slice i (length DockRevRegQualifier)) (RevRegIdByteSize E)))"
  by (simp add: hasDockRevocation_def)

lemma hasDockRevocation_other_id:
  "get_prop credential ''credentialStatus'' = Inr cs \<Longrightarrow> truthy cs
   \<Longrightarrow> get_prop cs ''type'' = Inr (JStr RevRegType) \<Longrightarrow> get_prop cs ''id'' = Inr i
   \<Longrightarrow> \<forall>s. i \<noteq> JStr s
   \<Longrightarrow> \<exists>m. hasDockRevocation E credential = Inl (TypeError m)"
  by (cases i) (simp_all add: hasDockRevocation_def)

lemmas example_defs = exampleEnv_def exampleCredential_def exampleStatus_def exampleDockApi_def
  exampleRegistryId_def isHexOfByteSize_def RevRegType_def DockRevRegQualifier_def
  startsWith_def slice_def verifiedResult_def failedResult_def

text \<open>
  What holds of claim C6. With a revocation API object given: \<open>checkRevocationStatus\<close>
  throws the configuration error when the object has no (truthy) \<open>dock\<close> entry; it
  returns the format verdict, which is not verified, when the credential has no status,
  when the status has another type, when the status id is a string that does not start
  with the registry qualifier, and when what follows the qualifier is not hex of the
  registry-id size; otherwise it asks the service with the registry id taken from the
  status id and the hash of the credential id, and returns the revoked verdict (not
  verified) if the answer is truthy, else the verified verdict.
\<close>

lemma checkRevocationStatus_cases:
  assumes dock: "get_prop rApi ''dock'' = Inr dockAPI"
      and status: "get_prop credential ''credentialStatus'' = Inr cs"
  shows
   "(\<not> truthy dockAPI \<longrightarrow> checkRevocationStatus E credential rApi
        = Inl (Error ''Only Dock revocation support is present as of now.''))
    \<and> (truthy dockAPI \<and> \<not> truthy cs
         \<longrightarrow> checkRevocationStatus E credential rApi = Inr formatVerdict)
    \<and> (truthy dockAPI \<and> truthy cs \<and> get_prop cs ''type'' \<noteq> Inr (JStr RevRegType)
         \<longrightarrow> checkRevocationStatus E credential rApi = Inr formatVerdict)
    \<and> (truthy dockAPI \<and> truthy cs \<and> get_prop cs ''type'' = Inr (JStr RevRegType)
         \<and> get_prop cs ''id'' = Inr (JStr i) \<and> \<not> startsWith i DockRevRegQualifier
         \<longrightarrow> checkRevocationStatus E credential rApi = Inr formatVerdict)
    \<and> (truthy dockAPI \<and> truthy cs \<and> get_prop cs ''type'' = Inr (JStr RevRegType)
         \<and> get_prop cs ''id'' = Inr (JStr (DockRevRegQualifier @ regId))
         \<and> \<not> isHexWithGivenByteSize E regId (RevRegIdByteSize E)
         \<longrightarrow> checkRevocationStatus E credential rApi = Inr formatVerdict)
    \<and> (truthy dockAPI \<and> truthy cs \<and> get_prop cs ''type'' = Inr (JStr RevRegType)
         \<and> get_prop cs ''id'' = Inr (JStr (DockRevRegQualifier @ regId))
         \<and> isHexWithGivenByteSize E regId (RevRegIdByteSize E)
         \<and> get_prop credential ''id'' = Inr credId
         \<and> blake2AsHex E credId (RevEntryByteSize E * 8) = Inr revId
         \<and> getIsRevoked E dockAPI (JStr regId) revId = Inr revoked
         \<longrightarrow> checkRevocationStatus E credential rApi
             = Inr (if truthy revoked then revokedVerdict else notRevokedVerdict))
    \<and> get_prop formatVerdict ''verified'' = Inr (JBool False)
    \<and> get_prop revokedVerdict ''verified'' = Inr (JBool False)
    \<and> get_prop notRevokedVerdict ''verified'' = Inr (JBool True)"
proof -
  have A: "\<not> truthy dockAPI \<Longrightarrow> checkRevocationStatus E credential rApi
        = Inl (Error ''Only Dock revocation support is present as of now.'')"
    using dock by (simp add: checkRevocationStatus_def)
  have B1: "truthy dockAPI \<Longrightarrow> \<not> truthy cs
      \<Longrightarrow> checkRevocationStatus E credential rApi = Inr formatVerdict"
    using dock hasDockRevocation_no_status [OF status, of E]
    by (simp add: checkRevocationStatus_def)
  have B2: "truthy dockAPI \<Longrightarrow> truthy cs \<Longrightarrow> get_prop cs ''type'' \<noteq> Inr (JStr RevRegType)
      \<Longrightarrow> checkRevocationStatus E credential rApi = Inr formatVerdict"
    using dock hasDockRevocation_wrong_type [OF status, of E]
    by (simp add: checkRevocationStatus_def)
  have B3: "truthy dockAPI \<Longrightarrow> truthy cs \<Longrightarrow> get_prop cs ''type'' = Inr (JStr RevRegType)
      \<Longrightarrow> get_prop cs ''id'' = Inr (JStr i) \<Longrightarrow> \<not> startsWith i DockRevRegQualifier
      \<Longrightarrow> checkRevocationStatus E credential rApi = Inr formatVerdict"
    using dock hasDockRevocation_string_id [OF status, of i E]
    by (simp add: checkRevocationStatus_def)
  have B4: "truthy dockAPI \<Longrightarrow> truthy cs \<Longrightarrow> get_prop cs ''type'' = Inr (JStr RevRegType)
      \<Longrightarrow> get_prop cs ''id'' = Inr (JStr (DockRevRegQualifier @ regId))
      \<Longrightarrow> \<not> isHexWithGivenByteSize E regId (RevRegIdByteSize E)
      \<Longrightarrow> checkRevocationStatus E credential rApi = Inr formatVerdict"
    using dock hasDockRevocation_string_id [OF status, of "DockRevRegQualifier @ regId" E]
    by (simp add: checkRevocationStatus_def)
  have C: "truthy dockAPI \<Longrightarrow> truthy cs \<Longrightarrow> get_prop cs ''type'' = Inr (JStr RevRegType)
      \<Longrightarrow> get_prop cs ''id'' = Inr (JStr (DockRevRegQualifier @ regId))
      \<Longrightarrow> isHexWithGivenByteSize E regId (RevRegIdByteSize E)
      \<Longrightarrow> get_prop credential ''id'' = Inr credId
      \<Longrightarrow> blake2AsHex E credId (RevEntryByteSize E * 8) = Inr revId
      \<Longrightarrow> getIsRevoked E dockAPI (JStr regId) revId = Inr revoked
      \<Longrightarrow> checkRevocationStatus E credential rApi
             = Inr (if truthy revoked then revokedVerdict else notRevokedVerdict)"
    using dock status hasDockRevocation_string_id [OF status, of "DockRevRegQualifier @ regId" E]
    by (simp add: checkRevocationStatus_def getDockRevIdFromCredential_def)
  show ?thesis using A B1 B2 B3 B4 C by simp
qed

lemma checkRevocationStatus_cases_witness:
  "checkRevocationStatus
       (exampleEnv verifiedResult [(JStr exampleRegistryId, JStr ''blake2:urn:cred:1'')] JNull)
       (exampleCredential ''urn:cred:1'' [(''credentialStatus'', exampleStatus)]) exampleDockApi
     = Inr revokedVerdict
   \<and> checkRevocationStatus (exampleEnv verifiedResult [] JNull)
       (exampleCredential ''urn:cred:1'' [(''credentialStatus'', exampleStatus)]) exampleDockApi
     = Inr notRevokedVerdict
   \<and> checkRevocationStatus (exampleEnv verifiedResult [] JNull)
       (exampleCredential ''urn:cred:1'' []) exampleDockApi
     = Inr formatVerdict
   \<and> checkRevocationStatus (exampleEnv verifiedResult [] JNull)
       (exampleCredential ''urn:cred:1'' [(''credentialStatus'', exampleStatus)]) (JObj [])
     = Inl (Error ''Only Dock revocation support is present as of now.'')"
  using
    checkRevocationStatus_cases [of exampleDockApi "JObj [(''revocation'', JObj [])]"
      "exampleCredential ''urn:cred:1'' [(''credentialStatus'', exampleStatus)]" exampleStatus
      "exampleEnv verifiedResult [(JStr exampleRegistryId, JStr ''blake2:urn:cred:1'')] JNull"
      "''x''" exampleRegistryId "JStr ''urn:cred:1''" "JStr ''blake2:urn:cred:1''" "JBool True"]
    checkRevocationStatus_cases [of exampleDockApi "JObj [(''revocation'', JObj [])]"
      "exampleCredential ''urn:cred:1'' [(''credentialStatus'', exampleStatus)]" exampleStatus
      "exampleEnv verifiedResult [] JNull"
      "''x''" exampleRegistryId "JStr ''urn:cred:1''" "JStr ''blake2:urn:cred:1''" "JBool False"]
    checkRevocationStatus_cases [of exampleDockApi "JObj [(''revocation'', JObj [])]"
      "exampleCredential ''urn:cred:1'' []" JUndefined "exampleEnv verifiedResult [] JNull"]
    checkRevocationStatus_cases [of "JObj []" JUndefined
      "exampleCredential ''urn:cred:1'' [(''credentialStatus'', exampleStatus)]" exampleStatus
      "exampleEnv verifiedResult [] JNull"]
  by (simp add: example_defs)

text \<open>
  Claim C6. The claim says that \<open>checkRevocationStatus\<close> returns the format verdict for
  every credential that is not revocation-formatted. For a status of the recognised type
  whose id is absent, or is not a string, it returns nothing: calling \<open>startsWith\<close> on
  the id throws a \<open>TypeError\<close>.
\<close>

theorem checkRevocationStatus_id_not_string_throws:
  "checkRevocationStatus (exampleEnv verifiedResult [] JNull)
       (exampleCredential ''urn:cred:1''
          [(''credentialStatus'', JObj [(''type'', JStr ''CredentialStatusList2017'')])])
       exampleDockApi
     = Inl (TypeError ''Cannot read property startsWith of undefined'')
   \<and> checkRevocationStatus (exampleEnv verifiedResult [] JNull)
       (exampleCredential ''urn:cred:1''
          [(''credentialStatus'',
            JObj [(''id'', JNum 7), (''type'', JStr ''CredentialStatusList2017'')])])
       exampleDockApi
     = Inl (TypeError ''startsWith is not a function'')"
  by (simp add: checkRevocationStatus_def hasDockRevocation_def exampleCredential_def
      exampleDockApi_def RevRegType_def)

text \<open>
  Claim C10. For a credential whose status is there and has the recognised type,
  \<open>hasDockRevocation\<close> returns a value exactly when the status id is a string. When the
  id is anything else (in particular absent), \<open>hasDockRevocation\<close> throws a
  \<open>TypeError\<close>, and so does \<open>checkRevocationStatus\<close> with a Dock service: neither
  returns \<open>false\<close> or the format verdict.
\<close>

theorem hasDockRevocation_total_iff_string_id:
  assumes "get_prop credential ''credentialStatus'' = Inr cs" and "truthy cs"
      and "get_prop cs ''type'' = Inr (JStr RevRegType)" and "get_prop cs ''id'' = Inr i"
  shows "((\<exists>h. hasDockRevocation E credential = Inr h) \<longleftrightarrow> (\<exists>s. i = JStr s))
       \<and> ((\<forall>s. i \<noteq> JStr s) \<longrightarrow>
            (\<exists>m. hasDockRevocation E credential = Inl (TypeError m))
            \<and> (\<forall>rApi d. get_prop rApi ''dock'' = Inr d \<and> truthy d
                 \<longrightarrow> (\<exists>m. checkRevocationStatus E credential rApi = Inl (TypeError m))))"
proof -
  have 1: "(\<exists>s. i = JStr s) \<Longrightarrow> \<exists>h. hasDockRevocation E credential = Inr h"
    using hasDockRevocation_string_id [OF assms(1,2,3), of _ E] assms(4) by auto
  have 2: "\<forall>s. i \<noteq> JStr s \<Longrightarrow> \<exists>m. hasDockRevocation E credential = Inl (TypeError m)"
    using hasDockRevocation_other_id [OF assms] by simp
  have 3: "\<forall>s. i \<noteq> JStr s \<Longrightarrow> get_prop rApi ''dock'' = Inr d \<Longrightarrow> truthy d
       \<Longrightarrow> \<exists>m. checkRevocationStatus E credential rApi = Inl (TypeError m)" for rApi d
    using 2 by (auto simp: checkRevocationStatus_def)
  show ?thesis using 1 2 3 by (metis sum.distinct(1))
qed

theorem hasDockRevocation_total_iff_string_id_witness:
  "hasDockRevocation (exampleEnv verifiedResult [] JNull)
       (exampleCredential ''urn:cred:1''
          [(''credentialStatus'', JObj [(''type'', JStr RevRegType)])])
     = Inl (TypeError ''Cannot read property startsWith of undefined'')
   \<and> (\<exists>m. checkRevocationStatus (exampleEnv verifiedResult [] JNull)
       (exampleCredential ''urn:cred:1''
          [(''credentialStatus'', JObj [(''type'', JStr RevRegType)])])
       exampleDockApi = Inl (TypeError m))"
  using
    hasDockRevocation_total_iff_string_id
      [of "exampleCredential ''urn:cred:1''
             [(''credentialStatus'', JObj [(''type'', JStr RevRegType)])]"
        "JObj [(''type'', JStr RevRegType)]" JUndefined "exampleEnv verifiedResult [] JNull"]
  by (simp add: exampleCredential_def exampleDockApi_def hasDockRevocation_def)

section \<open>Verification of a credential\<close>

text \<open>
  Claim C1. When the schema step has passed, the VC library has verified the credential
  and a revocation check is needed: if \<open>checkRevocationStatus\<close> returns a result that is
  not verified, \<open>verifyCredential\<close> returns that result; if it returns a verified result,
  \<open>verifyCredential\<close> returns the whole result of the VC library. When no revocation
  check is needed it returns the result of the VC library as well.
\<close>

theorem verifyCredential_revocation_overrides:
  assumes schema: "getAndValidateSchemaIfPresent E credential (dflt JNull (schemaApi P)) = Inr ()"
      and step2: "vcjs_verifyCredential E credential (dflt JNull (resolver P))
                    (dflt (JBool True) (compactProof P)) = Inr credVer"
      and verified: "get_prop credVer ''verified'' = Inr v" "truthy v"
      and status: "get_prop credential ''credentialStatus'' = Inr cs"
  shows
    "(truthy (isRevocationCheckNeeded cs (dflt (JBool True) (forceRevocationCheck P))
                (dflt JNull (revocationApi P)))
       \<and> checkRevocationStatus E credential (dflt JNull (revocationApi P)) = Inr revResult
       \<and> get_prop revResult ''verified'' = Inr rv \<and> \<not> truthy rv
       \<longrightarrow> verifyCredential E credential P = Inr revResult)
     \<and> (truthy (isRevocationCheckNeeded cs (dflt (JBool True) (forceRevocationCheck P))
                (dflt JNull (revocationApi P)))
       \<and> checkRevocationStatus E credential (dflt JNull (revocationApi P)) = Inr revResult
       \<and> get_prop revResult ''verified'' = Inr rv \<and> truthy rv
       \<longrightarrow> verifyCredential E credential P = Inr credVer)
     \<and> (\<not> truthy (isRevocationCheckNeeded cs (dflt (JBool True) (forceRevocationCheck P))
                (dflt JNull (revocationApi P)))
       \<longrightarrow> verifyCredential E credential P = Inr credVer)"
  using assms by (simp add: verifyCredential_def Let_def)

theorem verifyCredential_revocation_overrides_witness:
  "verifyCredential
       (exampleEnv verifiedResult [(JStr exampleRegistryId, JStr ''blake2:urn:cred:1'')] JNull)
       (exampleCredential ''urn:cred:1'' [(''credentialStatus'', exampleStatus)])
       (noParams\<lparr>revocationApi := exampleDockApi\<rparr>)
     = Inr revokedVerdict
   \<and> verifyCredential (exampleEnv verifiedResult [] JNull)
       (exampleCredential ''urn:cred:1'' [(''credentialStatus'', exampleStatus)])
       (noParams\<lparr>revocationApi := exampleDockApi\<rparr>)
     = Inr verifiedResult
   \<and> verifyCredential (exampleEnv verifiedResult [] JNull)
       (exampleCredential ''urn:cred:1'' []) noParams
     = Inr verifiedResult"
  using
    verifyCredential_revocation_overrides [of "exampleEnv verifiedResult [(JStr exampleRegistryId, JStr ''blake2:urn:cred:1'')] JNull"
      "exampleCredential ''urn:cred:1'' [(''credentialStatus'', exampleStatus)]"
      "noParams\<lparr>revocationApi := exampleDockApi\<rparr>" verifiedResult "JBool True" exampleStatus
      revokedVerdict "JBool False"]
    verifyCredential_revocation_overrides [of "exampleEnv verifiedResult [] JNull"
      "exampleCredential ''urn:cred:1'' [(''credentialStatus'', exampleStatus)]"
      "noParams\<lparr>revocationApi := exampleDockApi\<rparr>" verifiedResult "JBool True" exampleStatus
      notRevokedVerdict "JBool True"]
    verifyCredential_revocation_overrides [of "exampleEnv verifiedResult [] JNull"
      "exampleCredential ''urn:cred:1'' []" noParams verifiedResult "JBool True" JUndefined]
  by (simp add: example_defs noParams_def dflt_def getAndValidateSchemaIfPresent_def
      isRevocationCheckNeeded_def checkRevocationStatus_def hasDockRevocation_def
      getDockRevIdFromCredential_def)

text \<open>Without a revocation API, reading its \<open>dock\<close> entry is what throws.\<close>

lemma checkRevocationStatus_no_service:
  "checkRevocationStatus E credential JNull
     = Inl (TypeError ''Cannot read property dock of null'')"
  by (simp add: checkRevocationStatus_def)

text \<open>
  Claim C2, as the code has it. The claim says that verifying a credential with a
  well-formed status, no revocation service and the default \<open>forceRevocationCheck\<close>
  throws. It does not when the VC library rejects the credential: the revocation check is
  only reached after a successful verification, and the rejected result is returned.
\<close>

theorem verifyCredential_no_service_bad_signature:
  "hasDockRevocation (exampleEnv failedResult [] JNull)
       (exampleCredential ''urn:cred:1'' [(''credentialStatus'', exampleStatus)]) = Inr (JBool True)
   \<and> verifyCredential (exampleEnv failedResult [] JNull)
       (exampleCredential ''urn:cred:1'' [(''credentialStatus'', exampleStatus)]) noParams
     = Inr failedResult"
  by (simp add: example_defs noParams_def dflt_def getAndValidateSchemaIfPresent_def
      verifyCredential_def hasDockRevocation_def)

text \<open>
  Claim C2, amended. For a credential with a (truthy) status, no revocation service and
  the default \<open>forceRevocationCheck\<close>, \<open>verifyCredential\<close> never returns a verified
  result: when the schema step passes and the VC library verifies the credential the call
  throws, and when the VC library rejects the credential its result is returned.
\<close>

theorem verifyCredential_no_service_not_verified:
  assumes status: "get_prop credential ''credentialStatus'' = Inr cs" "truthy cs"
      and no_service: "dflt JNull (revocationApi P) = JNull"
      and force_default: "forceRevocationCheck P = JUndefined"
  shows
    "(\<forall>res. verifyCredential E credential P = Inr res
         \<longrightarrow> (\<exists>rv. get_prop res ''verified'' = Inr rv \<and> \<not> truthy rv))
     \<and> (getAndValidateSchemaIfPresent E credential (dflt JNull (schemaApi P)) = Inr ()
        \<and> vcjs_verifyCredential E credential (dflt JNull (resolver P))
             (dflt (JBool True) (compactProof P)) = Inr credVer
        \<and> get_prop credVer ''verified'' = Inr v \<and> truthy v
        \<longrightarrow> (\<exists>e. verifyCredential E credential P = Inl e))
     \<and> (getAndValidateSchemaIfPresent E credential (dflt JNull (schemaApi P)) = Inr ()
        \<and> vcjs_verifyCredential E credential (dflt JNull (resolver P))
             (dflt (JBool True) (compactProof P)) = Inr credVer
        \<and> get_prop credVer ''verified'' = Inr v \<and> \<not> truthy v
        \<longrightarrow> verifyCredential E credential P = Inr credVer)"
proof -
  let ?S = "getAndValidateSchemaIfPresent E credential (dflt JNull (schemaApi P))"
  let ?V = "vcjs_verifyCredential E credential (dflt JNull (resolver P))
             (dflt (JBool True) (compactProof P))"
  have needed: "isRevocationCheckNeeded cs (dflt (JBool True) (forceRevocationCheck P)) JNull
      = JBool True"
    using status force_default by (simp add: isRevocationCheckNeeded_def dflt_def)
  obtain e where e: "checkRevocationStatus E credential JNull = Inl e"
    using checkRevocationStatus_no_service by simp
  have pass: "verifyCredential E credential P = Inl e"
    if "?S = Inr ()" "?V = Inr credVer" "get_prop credVer ''verified'' = Inr v" "truthy v"
    for credVer v
    using that status no_service needed e by (simp add: verifyCredential_def Let_def)
  have fail: "verifyCredential E credential P = Inr credVer"
    if "?S = Inr ()" "?V = Inr credVer" "get_prop credVer ''verified'' = Inr v" "\<not> truthy v"
    for credVer v
    using that by (simp add: verifyCredential_def Let_def)
  have ret: "\<exists>rv. get_prop res ''verified'' = Inr rv \<and> \<not> truthy rv"
    if r: "verifyCredential E credential P = Inr res" for res
  proof -
    have s: "?S = Inr ()"
      using r by (cases ?S) (simp_all add: verifyCredential_def Let_def)
    obtain credVer where c: "?V = Inr credVer"
      using r s by (cases ?V) (simp_all add: verifyCredential_def Let_def)
    obtain v where v: "get_prop credVer ''verified'' = Inr v"
      using r s c by (cases "get_prop credVer ''verified''") (simp_all add: verifyCredential_def Let_def)
    show ?thesis
    proof (cases "truthy v")
      case True
      then show ?thesis using pass [OF s c v] r by simp
    next
      case False
      then show ?thesis using fail [OF s c v] r v by auto
    qed
  qed
  show ?thesis using pass fail ret by blast
qed

theorem verifyCredential_no_service_not_verified_witness:
  "(\<exists>e. verifyCredential (exampleEnv verifiedResult [] JNull)
       (exampleCredential ''urn:cred:1'' [(''credentialStatus'', exampleStatus)]) noParams = Inl e)
   \<and> verifyCredential (exampleEnv failedResult [] JNull)
       (exampleCredential ''urn:cred:1'' [(''credentialStatus'', exampleStatus)]) noParams
     = Inr failedResult"
proof -
  let ?c = "exampleCredential ''urn:cred:1'' [(''credentialStatus'', exampleStatus)]"
  have st: "get_prop ?c ''credentialStatus'' = Inr exampleStatus"
    by (simp add: exampleCredential_def)
  have tr: "truthy exampleStatus"
    by (simp add: exampleStatus_def)
  have ns: "dflt JNull (revocationApi noParams) = JNull"
    by (simp add: noParams_def dflt_def)
  have fd: "forceRevocationCheck noParams = JUndefined"
    by (simp add: noParams_def)
  have sc: "getAndValidateSchemaIfPresent E ?c (dflt JNull (schemaApi noParams)) = Inr ()" for E
    by (simp add: noParams_def dflt_def getAndValidateSchemaIfPresent_def)
  have vc: "vcjs_verifyCredential (exampleEnv r [] JNull) ?c (dflt JNull (resolver noParams))
      (dflt (JBool True) (compactProof noParams)) = Inr r" for r
    by (simp add: exampleEnv_def)
  have 1: "get_prop verifiedResult ''verified'' = Inr (JBool True)"
    by (simp add: verifiedResult_def)
  have 2: "get_prop failedResult ''verified'' = Inr (JBool False)"
    by (simp add: failedResult_def)
  show ?thesis
    using verifyCredential_no_service_not_verified [OF st tr ns fd, of "exampleEnv verifiedResult [] JNull" verifiedResult "JBool True"]
      verifyCredential_no_service_not_verified [OF st tr ns fd, of "exampleEnv failedResult [] JNull" failedResult "JBool False"]
      sc vc 1 2
    by simp
qed

section \<open>The schema step\<close>

text \<open>
  Claim C3, as the code has it. The claim says that a credential that declares a schema,
  verified with no schema service, makes the verification throw. It does not: with no
  schema service the schema step does nothing, and a credential whose subject lacks the property its
  schema requires is verified.
\<close>

theorem getAndValidateSchemaIfPresent_skips_without_service:
  "getAndValidateSchemaIfPresent (exampleEnv verifiedResult [] degreeSchema)
       (exampleCredential ''urn:cred:1'' [(''credentialSchema'', exampleSchemaRef)]) JNull = Inr ()
   \<and> verifyCredential (exampleEnv verifiedResult [] degreeSchema)
       (exampleCredential ''urn:cred:1'' [(''credentialSchema'', exampleSchemaRef)]) noParams
     = Inr verifiedResult
   \<and> get_prop verifiedResult ''verified'' = Inr (JBool True)"
  by (simp add: getAndValidateSchemaIfPresent_def verifyCredential_def noParams_def dflt_def
      exampleEnv_def exampleCredential_def verifiedResult_def isRevocationCheckNeeded_def)

lemma checkRevocationStatus_schema_free:
  "checkRevocationStatus (E\<lparr>Schema_get := g, validate := w\<rparr>) credential rApi
     = checkRevocationStatus E credential rApi"
  by (simp add: checkRevocationStatus_def hasDockRevocation_def getDockRevIdFromCredential_def
      cong: if_cong)

text \<open>
  Claim C3, amended. With no schema service (a falsy \<open>schemaApi\<close>) the schema step
  returns without checking and without an error, and the result of \<open>verifyCredential\<close>
  does not depend on the schema fetch or the validator. The error is thrown for a
  credential with a subject and a schema when a schema service is given that has no
  (truthy) Dock entry.
\<close>

theorem getAndValidateSchemaIfPresent_service:
  "(\<not> truthy sApi \<longrightarrow> getAndValidateSchemaIfPresent E credential sApi = Inr ())
   \<and> (\<not> truthy (dflt JNull (schemaApi P))
       \<longrightarrow> verifyCredential (E\<lparr>Schema_get := g, validate := w\<rparr>) credential P
           = verifyCredential E credential P)
   \<and> (truthy sApi \<and> get_prop credential ''credentialSubject'' = Inr subj \<and> truthy subj
       \<and> get_prop credential ''credentialSchema'' = Inr sch \<and> truthy sch
       \<and> get_prop sApi ''dock'' = Inr dock \<and> \<not> truthy dock
       \<longrightarrow> getAndValidateSchemaIfPresent E credential sApi
           = Inl (Error ''Only Dock schemas are supported as of now.''))"
proof -
  have skip: "getAndValidateSchemaIfPresent E' credential sApi' = Inr ()"
    if "\<not> truthy sApi'" for E' sApi'
    using that by (simp add: getAndValidateSchemaIfPresent_def)
  have same: "verifyCredential (E\<lparr>Schema_get := g, validate := w\<rparr>) credential P
      = verifyCredential E credential P"
    if "\<not> truthy (dflt JNull (schemaApi P))"
    using skip [OF that]
    by (simp add: verifyCredential_def Let_def checkRevocationStatus_schema_free cong: if_cong)
  have hard: "getAndValidateSchemaIfPresent E credential sApi
      = Inl (Error ''Only Dock schemas are supported as of now.'')"
    if "truthy sApi" "get_prop credential ''credentialSubject'' = Inr subj" "truthy subj"
      "get_prop credential ''credentialSchema'' = Inr sch" "truthy sch"
      "get_prop sApi ''dock'' = Inr dock" "\<not> truthy dock"
    using that by (simp add: getAndValidateSchemaIfPresent_def)
  show ?thesis using skip same hard by blast
qed

theorem getAndValidateSchemaIfPresent_service_witness:
  "getAndValidateSchemaIfPresent (exampleEnv verifiedResult [] degreeSchema)
       (exampleCredential ''urn:cred:1'' [(''credentialSchema'', exampleSchemaRef)]) JUndefined = Inr ()
   \<and> verifyCredential
       ((exampleEnv verifiedResult [] degreeSchema)
          \<lparr>Schema_get := \<lambda>i d. Inl (Error ''no such schema''), validate := \<lambda>i s. Inl (Error ''invalid'')\<rparr>)
       (exampleCredential ''urn:cred:1'' [(''credentialSchema'', exampleSchemaRef)]) noParams
     = Inr verifiedResult
   \<and> getAndValidateSchemaIfPresent (exampleEnv verifiedResult [] degreeSchema)
       (exampleCredential ''urn:cred:1'' [(''credentialSchema'', exampleSchemaRef)]) (JObj [])
     = Inl (Error ''Only Dock schemas are supported as of now.'')"
proof -
  let ?E = "exampleEnv verifiedResult [] degreeSchema"
  let ?c = "exampleCredential ''urn:cred:1'' [(''credentialSchema'', exampleSchemaRef)]"
  have v: "verifyCredential ?E ?c noParams = Inr verifiedResult"
    by (simp add: getAndValidateSchemaIfPresent_def verifyCredential_def noParams_def dflt_def
        exampleEnv_def exampleCredential_def verifiedResult_def isRevocationCheckNeeded_def)
  have n: "\<not> truthy (dflt JNull (schemaApi noParams))"
    by (simp add: noParams_def dflt_def)
  show ?thesis
    using
      getAndValidateSchemaIfPresent_service [where sApi = JUndefined and E = ?E and credential = ?c and P = noParams
        and g = "\<lambda>i d. Inl (Error ''no such schema'')" and w = "\<lambda>i s. Inl (Error ''invalid'')"]
      getAndValidateSchemaIfPresent_service [where sApi = "JObj []" and E = ?E and credential = ?c and P = noParams
        and subj = "JObj [(''id'', JStr ''did:dock:holder''), (''alumniOf'', JStr ''Example University'')]"
        and sch = exampleSchemaRef and dock = JUndefined]
      v n
    by (simp add: exampleCredential_def exampleSchemaRef_def)
qed

section \<open>Verification of a presentation\<close>

lemma indexed_array [simp]: "indexed E (JArr xs) = Inr xs"
proof -
  have "map (get_index (JArr xs)) [0..<length xs] = xs"
    by (rule nth_equalityI) simp_all
  then show ?thesis by (simp add: indexed_def loopCount_def)
qed

lemma loop_all_pass:
  "list_all (\<lambda>c. checkPresentedCredential E f r s c = Inr None) cs
   \<Longrightarrow> checkPresentedCredentials E f r s presVer cs = Inr presVer"
  by (induction cs) simp_all

lemma loop_first_result:
  "list_all (\<lambda>c. checkPresentedCredential E f r s c = Inr None) pre
   \<Longrightarrow> checkPresentedCredential E f r s c = Inr (Some res)
   \<Longrightarrow> checkPresentedCredentials E f r s presVer (pre @ c # post) = Inr res"
  by (induction pre) simp_all

lemma loop_first_error:
  "list_all (\<lambda>c. checkPresentedCredential E f r s c = Inr None) pre
   \<Longrightarrow> checkPresentedCredential E f r s c = Inl e
   \<Longrightarrow> checkPresentedCredentials E f r s presVer (pre @ c # post) = Inl e"
  by (induction pre) simp_all

lemma validateEach_all_valid:
  "list_all (\<lambda>x. validate E x t = Inr ()) xs \<Longrightarrow> validateEach E t xs = Inr (JBool True)"
  by (induction xs) simp_all

lemma validateEach_first_invalid:
  "list_all (\<lambda>x. validate E x t = Inr ()) ok \<Longrightarrow> validate E s t = Inl e
   \<Longrightarrow> validateEach E t (ok @ s # rest) = Inl e"
  by (induction ok) simp_all

lemma schema_step_with_service:
  assumes "truthy sApi"
      and "get_prop c ''credentialSubject'' = Inr subj" "truthy subj"
      and "get_prop c ''credentialSchema'' = Inr sch" "truthy sch"
      and "get_prop sApi ''dock'' = Inr d" "truthy d"
      and "get_prop sch ''id'' = Inr sid" "Schema_get E sid d = Inr schema"
      and "validatedSubjects E c schema = Inr copies" "get_prop schema ''schema'' = Inr inner"
  shows "getAndValidateSchemaIfPresent E c sApi
     = (case validateEach E (if truthy inner then inner else schema) copies of
          Inl e \<Rightarrow> Inl (Error (''Schema validation failed: '' @ error_to_string e))
        | Inr _ \<Rightarrow> Inr ())"
  using assms by (simp add: getAndValidateSchemaIfPresent_def validateCredentialSchema_def)

lemma checkPresentedCredential_revocation_passed:
  assumes "get_prop c ''credentialStatus'' = Inr cs"
      and "truthy (isRevocationCheckNeeded cs force rApi)
           \<longrightarrow> checkRevocationStatus E c rApi = Inr revResult
               \<and> get_prop revResult ''verified'' = Inr rv \<and> truthy rv"
  shows "checkPresentedCredential E force rApi sApi c
     = bindE (getAndValidateSchemaIfPresent E c sApi) (\<lambda>_. Inr None)"
  using assms by (auto simp: checkPresentedCredential_def)

lemmas schema_defs = getAndValidateSchemaIfPresent_def validateCredentialSchema_def
  validatedSubjects_def requiresID_def subjectsOf_def indexed_def loopCount_def subjectCopy_def
  validateRequired_def

text \<open>
  Claim C7, as the code has it. The claim says that for each credential of a verified
  presentation the schema check is performed when a schema is declared. With no schema
  service it is not: the presentation of a credential whose subject lacks the property
  its declared schema requires is returned verified.
\<close>

theorem verifyPresentation_skips_schema_without_service:
  "getAndValidateSchemaIfPresent (exampleEnv verifiedResult [] degreeSchema)
       (exampleCredential ''urn:cred:1'' [(''credentialSchema'', exampleSchemaRef)]) exampleSchemaApi
     = Inl (Error ''Schema validation failed: Error: requires property degree'')
   \<and> verifyPresentation (exampleEnv verifiedResult [] degreeSchema)
       (examplePresentation
          [exampleCredential ''urn:cred:1'' [(''credentialSchema'', exampleSchemaRef)]])
       noParams
     = Inr verifiedResult
   \<and> get_prop verifiedResult ''verified'' = Inr (JBool True)"
  by (simp add: schema_defs verifyPresentation_def checkPresentedCredential_def
      isRevocationCheckNeeded_def noParams_def dflt_def exampleEnv_def exampleCredential_def
      examplePresentation_def exampleSchemaRef_def exampleSchemaApi_def degreeSchema_def
      verifiedResult_def)

text \<open>
  When \<open>verifiableCredential\<close> is one credential object and not an array, the loop
  finds no \<open>length\<close> and checks nothing.
\<close>

lemma verifyPresentation_single_credential_object:
  assumes "vcjs_verify E presentation (challenge P) (domain P) (dflt JNull (resolver P))
             (dflt (JBool True) (compactProof P)) = Inr presVer"
      and "get_prop presVer ''verified'' = Inr v" "truthy v"
      and "get_prop presentation ''verifiableCredential'' = Inr (JObj kvs)"
      and "map_of kvs ''length'' = None"
  shows "verifyPresentation E presentation P = Inr presVer"
  using assms by (simp add: verifyPresentation_def Let_def indexed_def loopCount_def)

text \<open>
  Claim C7, amended. When the VC library has verified the presentation and
  \<open>verifiableCredential\<close> is an array, its credentials are checked in order, and the
  verification ends with the first credential that does not pass, with that credential's
  result or error whatever credentials follow; it returns the result of the VC library
  when all pass. For one credential: if a revocation check is needed and its result is
  not verified, that result is returned and the schema step is not run. Otherwise the
  schema step decides: the credential passes when there is no schema service, no subject
  or no declared schema; with a schema service that has a Dock entry the declared schema
  is fetched and each subject copy is validated against it, the credential passes when
  all copies are valid, and the first invalid copy ends the verification with the error
  \<open>Schema validation failed\<close>.
\<close>

theorem verifyPresentation_first_failure:
  assumes envelope: "vcjs_verify E presentation (challenge P) (domain P) (dflt JNull (resolver P))
                       (dflt (JBool True) (compactProof P)) = Inr presVer"
      and verified: "get_prop presVer ''verified'' = Inr v" "truthy v"
      and creds: "get_prop presentation ''verifiableCredential'' = Inr (JArr credentials)"
      and force: "force = dflt (JBool True) (forceRevocationCheck P)"
      and rApi: "rApi = dflt JNull (revocationApi P)"
      and sApi: "sApi = dflt JNull (schemaApi P)"
  shows
    "(list_all (\<lambda>c. checkPresentedCredential E force rApi sApi c = Inr None) credentials
        \<longrightarrow> verifyPresentation E presentation P = Inr presVer)
     \<and> (credentials = pre @ c # post
        \<and> list_all (\<lambda>c. checkPresentedCredential E force rApi sApi c = Inr None) pre
        \<and> checkPresentedCredential E force rApi sApi c = Inr (Some res)
        \<longrightarrow> verifyPresentation E presentation P = Inr res)
     \<and> (credentials = pre @ c # post
        \<and> list_all (\<lambda>c. checkPresentedCredential E force rApi sApi c = Inr None) pre
        \<and> checkPresentedCredential E force rApi sApi c = Inl e
        \<longrightarrow> verifyPresentation E presentation P = Inl e)
     \<and> (get_prop c ''credentialStatus'' = Inr cs \<and> truthy (isRevocationCheckNeeded cs force rApi)
        \<and> checkRevocationStatus E c rApi = Inr revResult
        \<and> get_prop revResult ''verified'' = Inr rv \<and> \<not> truthy rv
        \<longrightarrow> checkPresentedCredential E force rApi sApi c = Inr (Some revResult))
     \<and> (get_prop c ''credentialStatus'' = Inr cs
        \<and> (truthy (isRevocationCheckNeeded cs force rApi)
             \<longrightarrow> checkRevocationStatus E c rApi = Inr revResult
                 \<and> get_prop revResult ''verified'' = Inr rv \<and> truthy rv)
        \<longrightarrow> (\<not> truthy sApi \<longrightarrow> checkPresentedCredential E force rApi sApi c = Inr None)
          \<and> (truthy sApi \<and> get_prop c ''credentialSubject'' = Inr subj \<and> \<not> truthy subj
               \<longrightarrow> checkPresentedCredential E force rApi sApi c = Inr None)
          \<and> (truthy sApi \<and> get_prop c ''credentialSubject'' = Inr subj \<and> truthy subj
               \<and> get_prop c ''credentialSchema'' = Inr sch \<and> \<not> truthy sch
               \<longrightarrow> checkPresentedCredential E force rApi sApi c = Inr None)
          \<and> (truthy sApi \<and> get_prop c ''credentialSubject'' = Inr subj \<and> truthy subj
               \<and> get_prop c ''credentialSchema'' = Inr sch \<and> truthy sch
               \<and> get_prop sApi ''dock'' = Inr d \<and> truthy d
               \<and> get_prop sch ''id'' = Inr sid \<and> Schema_get E sid d = Inr schema
               \<and> validatedSubjects E c schema = Inr copies
               \<and> get_prop schema ''schema'' = Inr inner
               \<longrightarrow> (list_all (\<lambda>x. validate E x (if truthy inner then inner else schema) = Inr ())
                      copies
                     \<longrightarrow> checkPresentedCredential E force rApi sApi c = Inr None)
                 \<and> (copies = ok @ s # rest
                     \<and> list_all (\<lambda>x. validate E x (if truthy inner then inner else schema) = Inr ())
                          ok
                     \<and> validate E s (if truthy inner then inner else schema) = Inl ve
                     \<longrightarrow> checkPresentedCredential E force rApi sApi c
                         = Inl (Error (''Schema validation failed: '' @ error_to_string ve)))))"
proof -
  let ?body = "checkPresentedCredential E force rApi sApi"
  let ?t = "if truthy inner then inner else schema"
  have run: "verifyPresentation E presentation P
      = checkPresentedCredentials E force rApi sApi presVer credentials"
    using assms by (simp add: verifyPresentation_def Let_def)
  have A: "list_all (\<lambda>c. ?body c = Inr None) credentials
      \<Longrightarrow> verifyPresentation E presentation P = Inr presVer"
    unfolding run by (rule loop_all_pass)
  have B: "credentials = pre @ c # post \<Longrightarrow> list_all (\<lambda>c. ?body c = Inr None) pre
      \<Longrightarrow> ?body c = Inr (Some res) \<Longrightarrow> verifyPresentation E presentation P = Inr res"
    unfolding run by (simp add: loop_first_result)
  have C: "credentials = pre @ c # post \<Longrightarrow> list_all (\<lambda>c. ?body c = Inr None) pre
      \<Longrightarrow> ?body c = Inl e \<Longrightarrow> verifyPresentation E presentation P = Inl e"
    unfolding run by (simp add: loop_first_error)
  have D: "get_prop c ''credentialStatus'' = Inr cs
      \<Longrightarrow> truthy (isRevocationCheckNeeded cs force rApi)
      \<Longrightarrow> checkRevocationStatus E c rApi = Inr revResult
      \<Longrightarrow> get_prop revResult ''verified'' = Inr rv \<Longrightarrow> \<not> truthy rv
      \<Longrightarrow> ?body c = Inr (Some revResult)"
    by (simp add: checkPresentedCredential_def)
  have F: "(\<not> truthy sApi \<longrightarrow> ?body c = Inr None)
      \<and> (truthy sApi \<and> get_prop c ''credentialSubject'' = Inr subj \<and> \<not> truthy subj
           \<longrightarrow> ?body c = Inr None)
      \<and> (truthy sApi \<and> get_prop c ''credentialSubject'' = Inr subj \<and> truthy subj
           \<and> get_prop c ''credentialSchema'' = Inr sch \<and> \<not> truthy sch
           \<longrightarrow> ?body c = Inr None)
      \<and> (truthy sApi \<and> get_prop c ''credentialSubject'' = Inr subj \<and> truthy subj
           \<and> get_prop c ''credentialSchema'' = Inr sch \<and> truthy sch
           \<and> get_prop sApi ''dock'' = Inr d \<and> truthy d
           \<and> get_prop sch ''id'' = Inr sid \<and> Schema_get E sid d = Inr schema
           \<and> validatedSubjects E c schema = Inr copies
           \<and> get_prop schema ''schema'' = Inr inner
           \<longrightarrow> (list_all (\<lambda>x. validate E x ?t = Inr ()) copies \<longrightarrow> ?body c = Inr None)
             \<and> (copies = ok @ s # rest \<and> list_all (\<lambda>x. validate E x ?t = Inr ()) ok
                 \<and> validate E s ?t = Inl ve
                 \<longrightarrow> ?body c = Inl (Error (''Schema validation failed: '' @ error_to_string ve))))"
    if st: "get_prop c ''credentialStatus'' = Inr cs"
      and rev: "truthy (isRevocationCheckNeeded cs force rApi)
             \<longrightarrow> checkRevocationStatus E c rApi = Inr revResult
                 \<and> get_prop revResult ''verified'' = Inr rv \<and> truthy rv"
  proof -
    have body: "?body c = bindE (getAndValidateSchemaIfPresent E c sApi) (\<lambda>_. Inr None)"
      using st rev by (rule checkPresentedCredential_revocation_passed)
    have 1: "\<not> truthy sApi \<Longrightarrow> ?body c = Inr None"
      unfolding body by (simp add: getAndValidateSchemaIfPresent_def)
    have 2: "truthy sApi \<Longrightarrow> get_prop c ''credentialSubject'' = Inr subj \<Longrightarrow> \<not> truthy subj
        \<Longrightarrow> ?body c = Inr None"
      unfolding body by (simp add: getAndValidateSchemaIfPresent_def)
    have 3: "truthy sApi \<Longrightarrow> get_prop c ''credentialSubject'' = Inr subj \<Longrightarrow> truthy subj
        \<Longrightarrow> get_prop c ''credentialSchema'' = Inr sch \<Longrightarrow> \<not> truthy sch
        \<Longrightarrow> ?body c = Inr None"
      unfolding body by (simp add: getAndValidateSchemaIfPresent_def)
    have 4: "?body c = Inr None"
      if "truthy sApi" "get_prop c ''credentialSubject'' = Inr subj" "truthy subj"
        "get_prop c ''credentialSchema'' = Inr sch" "truthy sch"
        "get_prop sApi ''dock'' = Inr d" "truthy d"
        "get_prop sch ''id'' = Inr sid" "Schema_get E sid d = Inr schema"
        "validatedSubjects E c schema = Inr copies" "get_prop schema ''schema'' = Inr inner"
        "list_all (\<lambda>x. validate E x ?t = Inr ()) copies"
      unfolding body
      using schema_step_with_service [OF that(1-11)] validateEach_all_valid [OF that(12)]
      by simp
    have 5: "?body c = Inl (Error (''Schema validation failed: '' @ error_to_string ve))"
      if "truthy sApi" "get_prop c ''credentialSubject'' = Inr subj" "truthy subj"
        "get_prop c ''credentialSchema'' = Inr sch" "truthy sch"
        "get_prop sApi ''dock'' = Inr d" "truthy d"
        "get_prop sch ''id'' = Inr sid" "Schema_get E sid d = Inr schema"
        "validatedSubjects E c schema = Inr copies" "get_prop schema ''schema'' = Inr inner"
        "copies = ok @ s # rest" "list_all (\<lambda>x. validate E x ?t = Inr ()) ok"
        "validate E s ?t = Inl ve"
      unfolding body
      using schema_step_with_service [OF that(1-11)]
        validateEach_first_invalid [OF that(13,14), of rest] that(12)
      by simp
    show ?thesis using 1 2 3 4 5 by blast
  qed
  show ?thesis using A B C D F by blast
qed


theorem verifyPresentation_first_failure_witness:
  "verifyPresentation
       (exampleEnv verifiedResult [(JStr exampleRegistryId, JStr ''blake2:urn:cred:1'')] degreeSchema)
       (examplePresentation
          [exampleCredential ''urn:cred:1'' [(''credentialStatus'', exampleStatus)], JNull])
       (noParams\<lparr>revocationApi := exampleDockApi, schemaApi := exampleSchemaApi\<rparr>)
     = Inr revokedVerdict
   \<and> verifyPresentation
       (exampleEnv verifiedResult [(JStr exampleRegistryId, JStr ''blake2:urn:cred:1'')] degreeSchema)
       (examplePresentation
          [exampleCredential ''urn:cred:3'' [(''credentialStatus'', exampleStatus)],
           exampleCredential ''urn:cred:2''
             [(''credentialStatus'', exampleStatus), (''credentialSchema'', exampleSchemaRef)],
           JNull])
       (noParams\<lparr>revocationApi := exampleDockApi, schemaApi := exampleSchemaApi\<rparr>)
     = Inl (Error ''Schema validation failed: Error: requires property degree'')
   \<and> verifyPresentation
       (exampleEnv verifiedResult [(JStr exampleRegistryId, JStr ''blake2:urn:cred:1'')] degreeSchema)
       (examplePresentation [exampleCredential ''urn:cred:3'' [(''credentialStatus'', exampleStatus)]])
       (noParams\<lparr>revocationApi := exampleDockApi, schemaApi := exampleSchemaApi\<rparr>)
     = Inr verifiedResult"
proof -
  let ?E = "exampleEnv verifiedResult [(JStr exampleRegistryId, JStr ''blake2:urn:cred:1'')] degreeSchema"
  let ?P = "noParams\<lparr>revocationApi := exampleDockApi, schemaApi := exampleSchemaApi\<rparr>"
  let ?c1 = "exampleCredential ''urn:cred:1'' [(''credentialStatus'', exampleStatus)]"
  let ?c2 = "exampleCredential ''urn:cred:2''
               [(''credentialStatus'', exampleStatus), (''credentialSchema'', exampleSchemaRef)]"
  let ?c3 = "exampleCredential ''urn:cred:3'' [(''credentialStatus'', exampleStatus)]"
  let ?subject = "JObj [(''id'', JStr ''did:dock:holder''), (''alumniOf'', JStr ''Example University'')]"
  let ?copy = "JObj [(''alumniOf'', JStr ''Example University'')]"
  let ?body = "checkPresentedCredential ?E (JBool True) exampleDockApi exampleSchemaApi"
  have env: "vcjs_verify ?E pres (challenge ?P) (domain ?P) (dflt JNull (resolver ?P))
      (dflt (JBool True) (compactProof ?P)) = Inr verifiedResult" for pres
    by (simp add: exampleEnv_def)
  have ver: "get_prop verifiedResult ''verified'' = Inr (JBool True)" "truthy (JBool True)"
    by (simp_all add: verifiedResult_def)
  have creds: "get_prop (examplePresentation cs) ''verifiableCredential'' = Inr (JArr cs)" for cs
    by (simp add: examplePresentation_def)
  have opts: "JBool True = dflt (JBool True) (forceRevocationCheck ?P)"
    "exampleDockApi = dflt JNull (revocationApi ?P)"
    "exampleSchemaApi = dflt JNull (schemaApi ?P)"
    by (simp_all add: noParams_def dflt_def exampleDockApi_def exampleSchemaApi_def)
  have st: "get_prop (exampleCredential i ((''credentialStatus'', exampleStatus) # x))
      ''credentialStatus'' = Inr exampleStatus" for i x
    by (simp add: exampleCredential_def)
  have needed: "truthy (isRevocationCheckNeeded exampleStatus (JBool True) exampleDockApi)"
    by (simp add: isRevocationCheckNeeded_def exampleStatus_def)
  have revoked: "checkRevocationStatus ?E ?c1 exampleDockApi = Inr revokedVerdict"
    by (simp add: checkRevocationStatus_def hasDockRevocation_def getDockRevIdFromCredential_def
        example_defs)
  have not_revoked: "checkRevocationStatus ?E ?c2 exampleDockApi = Inr notRevokedVerdict"
    "checkRevocationStatus ?E ?c3 exampleDockApi = Inr notRevokedVerdict"
    by (simp_all add: checkRevocationStatus_def hasDockRevocation_def
        getDockRevIdFromCredential_def example_defs)
  have b1: "?body ?c1 = Inr (Some revokedVerdict)"
    using verifyPresentation_first_failure [where c = ?c1 and cs = exampleStatus and revResult = revokedVerdict
          and rv = "JBool False",
        OF env ver creds opts,
        THEN conjunct2, THEN conjunct2, THEN conjunct2, THEN conjunct1]
      st needed revoked
    by simp
  have passed2: "truthy (isRevocationCheckNeeded exampleStatus (JBool True) exampleDockApi)
      \<longrightarrow> checkRevocationStatus ?E ?c2 exampleDockApi = Inr notRevokedVerdict
        \<and> get_prop notRevokedVerdict ''verified'' = Inr (JBool True) \<and> truthy (JBool True)"
    using not_revoked by simp
  have passed3: "truthy (isRevocationCheckNeeded exampleStatus (JBool True) exampleDockApi)
      \<longrightarrow> checkRevocationStatus ?E ?c3 exampleDockApi = Inr notRevokedVerdict
        \<and> get_prop notRevokedVerdict ''verified'' = Inr (JBool True) \<and> truthy (JBool True)"
    using not_revoked by simp
  have s2: "truthy exampleSchemaApi" "get_prop ?c2 ''credentialSubject'' = Inr ?subject"
    "truthy ?subject" "get_prop ?c2 ''credentialSchema'' = Inr exampleSchemaRef"
    "truthy exampleSchemaRef" "get_prop exampleSchemaApi ''dock'' = Inr (JObj [(''blob'', JObj [])])"
    "truthy (JObj [(''blob'', JObj [])])" "get_prop exampleSchemaRef ''id'' = Inr (JStr ''blob:dock:5C78GCA'')"
    "Schema_get ?E (JStr ''blob:dock:5C78GCA'') (JObj [(''blob'', JObj [])]) = Inr degreeSchema"
    "validatedSubjects ?E ?c2 degreeSchema = Inr [?copy]"
    "get_prop degreeSchema ''schema'' = Inr JUndefined"
    "validate ?E ?copy (if truthy JUndefined then JUndefined else degreeSchema)
       = Inl (Error ''requires property degree'')"
    by (simp_all add: exampleSchemaApi_def exampleSchemaRef_def exampleCredential_def
        exampleEnv_def degreeSchema_def validatedSubjects_def requiresID_def subjectsOf_def
        indexed_def loopCount_def subjectCopy_def validateRequired_def)
  have b2: "?body ?c2 = Inl (Error ''Schema validation failed: Error: requires property degree'')"
    using verifyPresentation_first_failure [where c = ?c2 and cs = exampleStatus and revResult = notRevokedVerdict
          and rv = "JBool True"
          and subj = ?subject and sch = exampleSchemaRef and d = "JObj [(''blob'', JObj [])]"
          and sid = "JStr ''blob:dock:5C78GCA''" and schema = degreeSchema and copies = "[?copy]"
          and inner = JUndefined and ok = "[]" and s = ?copy and rest = "[]"
          and ve = "Error ''requires property degree''",
        OF env ver creds opts,
        THEN conjunct2, THEN conjunct2, THEN conjunct2, THEN conjunct2]
      st passed2 s2
    by simp
  have s3: "get_prop ?c3 ''credentialSubject'' = Inr ?subject" "truthy ?subject"
    "get_prop ?c3 ''credentialSchema'' = Inr JUndefined" "\<not> truthy JUndefined"
    by (simp_all add: exampleCredential_def)
  have b3: "?body ?c3 = Inr None"
    using verifyPresentation_first_failure [where c = ?c3 and cs = exampleStatus and revResult = notRevokedVerdict
          and rv = "JBool True" and subj = ?subject and sch = JUndefined,
        OF env ver creds opts,
        THEN conjunct2, THEN conjunct2, THEN conjunct2, THEN conjunct2]
      st passed3 s2(1) s3
    by simp
  have r1: "verifyPresentation ?E (examplePresentation [?c1, JNull]) ?P = Inr revokedVerdict"
    using verifyPresentation_first_failure [where credentials = "[?c1, JNull]" and pre = "[]" and c = ?c1 and post = "[JNull]"
          and res = revokedVerdict,
        OF env ver creds opts, THEN conjunct2, THEN conjunct1] b1
    by simp
  have r2: "verifyPresentation ?E (examplePresentation [?c3, ?c2, JNull]) ?P
      = Inl (Error ''Schema validation failed: Error: requires property degree'')"
    using verifyPresentation_first_failure [where credentials = "[?c3, ?c2, JNull]" and pre = "[?c3]" and c = ?c2
          and post = "[JNull]"
          and e = "Error ''Schema validation failed: Error: requires property degree''",
        OF env ver creds opts, THEN conjunct2, THEN conjunct2, THEN conjunct1] b2 b3
    by simp
  have r3: "verifyPresentation ?E (examplePresentation [?c3]) ?P = Inr verifiedResult"
    using verifyPresentation_first_failure [where credentials = "[?c3]", OF env ver creds opts, THEN conjunct1] b3 by simp
  show ?thesis using r1 r2 r3 by simp
qed

section \<open>Import of a schema graph\<close>

lemma shifted_append [simp]: "shifted (xs @ ys) = shifted xs @ shifted ys"
  by (induction xs rule: shifted.induct) simp_all

lemma externalCalls_append [simp]: "externalCalls (xs @ ys) = externalCalls xs @ externalCalls ys"
  by (induction xs rule: externalCalls.induct) simp_all

lemma resolveSchema_events:
  "resolveSchema S i api = (evs, res) \<Longrightarrow> shifted evs = []"
  by (auto simp: resolveSchema_def split: if_splits sum.splits)

lemma importNextSchema_out_of_fuel:
  "importNextSchema n S pfx api V log = (OutOfFuel, V', log')
   \<Longrightarrow> length (shifted log') = length (shifted log) + n"
proof (induction n arbitrary: V log)
  case 0
  then show ?case by simp
next
  case (Suc n)
  show ?case
  proof (cases "unresolvedRefs V")
    case Nil
    with Suc.prems show ?thesis by simp
  next
    case (Cons r rest)
    let ?V1 = "V\<lparr>unresolvedRefs := rest\<rparr>"
    let ?log1 = "log @ [Console ''nextSchemaId'' (JStr r)]"
    have r: "r \<noteq> []"
      using Suc.prems Cons by (auto simp: Let_def)
    show ?thesis
    proof (cases "startsWith (canonicalId r) pfx")
      case True
      then have "importNextSchema n S pfx api ?V1 ?log1 = (OutOfFuel, V', log')"
        using Suc.prems Cons r by (simp add: Let_def)
      from Suc.IH [OF this] show ?thesis by simp
    next
      case False
      obtain evs res where rs: "resolveSchema S (canonicalId r) api = (evs, res)"
        by (cases "resolveSchema S (canonicalId r) api")
      show ?thesis
      proof (cases res)
        case (Inl e)
        with Suc.prems Cons r False rs show ?thesis by (simp add: Let_def)
      next
        case (Inr nextSchema)
        then have "importNextSchema n S pfx api (addSchema S ?V1 nextSchema)
            (?log1 @ ResolveCall (canonicalId r) # evs) = (OutOfFuel, V', log')"
          using Suc.prems Cons r False rs by (simp add: Let_def)
        from Suc.IH [OF this] resolveSchema_events [OF rs] show ?thesis by simp
      qed
    qed
  qed
qed

lemma importNextSchema_enough_fuel:
  "fst (importNextSchema n S pfx api V log) \<noteq> OutOfFuel
   \<Longrightarrow> importNextSchema (n + k) S pfx api V log = importNextSchema n S pfx api V log"
proof (induction n arbitrary: V log)
  case 0
  then show ?case by simp
next
  case (Suc n)
  show ?case
  proof (cases "unresolvedRefs V")
    case Nil
    then show ?thesis by simp
  next
    case (Cons r rest)
    show ?thesis
      using Suc.prems Cons Suc.IH
      by (auto simp: Let_def split: prod.splits sum.splits)
  qed
qed


lemma shifted_initial [simp]: "shifted [Console ''initialSchemaId'' v] = []"
  by (cases v) simp_all

lemma update_out_of_fuel:
  assumes "fst (updateSchemaValidatorWithSchemas n S V root api) = OutOfFuel"
  shows "length (shifted (snd (snd (updateSchemaValidatorWithSchemas n S V root api)))) = n"
proof (cases "get_prop root ''id''")
  case (Inl e)
  with assms show ?thesis by (simp add: updateSchemaValidatorWithSchemas_def Let_def)
next
  case (Inr i)
  let ?run = "importNextSchema n S (ToString (if truthy i then i else JStr ''/'') @ ''#/$defs'') api
     (addSchema S V root) [Console ''initialSchemaId'' (if truthy i then i else JStr ''/'')]"
  have eq: "updateSchemaValidatorWithSchemas n S V root api = ?run"
    using Inr by (simp add: updateSchemaValidatorWithSchemas_def Let_def)
  obtain V' log' where r: "?run = (OutOfFuel, V', log')"
    using assms unfolding eq by (cases ?run) auto
  from importNextSchema_out_of_fuel [OF r] show ?thesis
    unfolding eq r by simp
qed

lemma update_enough_fuel:
  "fst (updateSchemaValidatorWithSchemas n S V root api) \<noteq> OutOfFuel
   \<Longrightarrow> updateSchemaValidatorWithSchemas (n + k) S V root api
       = updateSchemaValidatorWithSchemas n S V root api"
  by (cases "get_prop root ''id''")
    (simp_all add: updateSchemaValidatorWithSchemas_def Let_def importNextSchema_enough_fuel)



lemma schemaRefs_schemaWithRefs [simp]: "schemaRefs (schemaWithRefs i refs) = refs"
  by (simp add: schemaRefs_def schemaWithRefs_def) (induction refs; simp)

lemma schemaWithRefs_id [simp]: "get_prop (schemaWithRefs i refs) ''id'' = Inr (JStr i)"
  by (simp add: schemaWithRefs_def)



lemma registered_shift [simp]: "registered (V\<lparr>unresolvedRefs := q\<rparr>) = registered V"
  by (simp add: registered_def)



lemma exampleAddSchema_registered:
  "registered (exampleAddSchema V s)
     = registered V \<union> (case get_prop s ''id'' of Inr (JStr i) \<Rightarrow> {i} | _ \<Rightarrow> {})"
  by (auto simp: registered_def exampleAddSchema_def Let_def split: sum.splits jsval.splits)

lemma exampleAddSchema_queue:
  "set (unresolvedRefs (exampleAddSchema V s))
     = (set (unresolvedRefs V) \<union> set (schemaRefs s)) - registered (exampleAddSchema V s)"
  by (auto simp: registered_def exampleAddSchema_def Let_def map_of_eq_None_iff
      split: sum.splits jsval.splits)

lemma resolveSchema_fetch:
  "snd (resolveSchema S u JNull) = Inr s \<Longrightarrow> isURL S u \<and> fetchJSONFromUrl S u = Inr s"
  by (auto simp: resolveSchema_def split: if_splits)

lemma canonicalId_http: "startsWith (canonicalId r) ''http://'' \<Longrightarrow> canonicalId r = r"
  by (auto simp: canonicalId_def startsWith_def BlobQualifier_def split: if_splits)

lemma chain_registers:
  "set (unresolvedRefs (addSchema chainEnv emptyValidator (schemaWithRefs ''http://h/r'' [''http://h/s''])))
     \<subseteq> UNIV - registered (addSchema chainEnv emptyValidator (schemaWithRefs ''http://h/r'' [''http://h/s'']))
   \<and> (\<forall>V r s. r \<in> UNIV \<and> r \<notin> registered V \<and> set (unresolvedRefs V) \<subseteq> UNIV - registered V
          \<and> snd (resolveSchema chainEnv (canonicalId r) JNull) = Inr s
        \<longrightarrow> registered V \<union> {r} \<subseteq> registered (addSchema chainEnv V s)
           \<and> set (unresolvedRefs (addSchema chainEnv V s))
               \<subseteq> UNIV - registered (addSchema chainEnv V s))"
proof (intro conjI allI impI)
  show "set (unresolvedRefs (addSchema chainEnv emptyValidator (schemaWithRefs ''http://h/r'' [''http://h/s''])))
     \<subseteq> UNIV - registered (addSchema chainEnv emptyValidator (schemaWithRefs ''http://h/r'' [''http://h/s'']))"
    by (simp add: chainEnv_def exampleAddSchema_queue) blast
next
  fix V r s
  assume h: "r \<in> UNIV \<and> r \<notin> registered V \<and> set (unresolvedRefs V) \<subseteq> UNIV - registered V
          \<and> snd (resolveSchema chainEnv (canonicalId r) JNull) = Inr s"
  then have f: "isURL chainEnv (canonicalId r)" "fetchJSONFromUrl chainEnv (canonicalId r) = Inr s"
    using resolveSchema_fetch by blast+
  then have "canonicalId r = r"
    by (intro canonicalId_http) (simp add: chainEnv_def)
  with f have s: "s = schemaWithRefs r [r @ ''s'']"
    by (simp add: chainEnv_def)
  show "registered V \<union> {r} \<subseteq> registered (addSchema chainEnv V s)"
    by (simp add: chainEnv_def exampleAddSchema_registered s)
  show "set (unresolvedRefs (addSchema chainEnv V s)) \<subseteq> UNIV - registered (addSchema chainEnv V s)"
    by (simp add: chainEnv_def exampleAddSchema_queue) blast
qed







section \<open>Schema validation of the subjects\<close>

lemmas schema_step_defs = getAndValidateSchemaIfPresent_def validateCredentialSchema_def
  validatedSubjects_def requiresID_def subjectsOf_def indexed_def loopCount_def subjectCopy_def
  validateRequired_def

text \<open>
  Claim C9. The claim says that the schema is applied to the subject object, or to each
  element of a sequence of subjects. The code takes a subject for a sequence when its
  \<open>length\<close> is truthy: for a single subject with a property \<open>length\<close> of 2 it
  validates two empty objects and never the subject, so that a subject that has the
  required name is rejected; and for an empty sequence it validates one empty object.
\<close>

theorem validateCredentialSchema_length_property:
  "validatedSubjects E
       (exampleCredential ''urn:cred:1'' [(''credentialSubject'', pipeSubject)]) nameSchema
     = Inr [JObj [], JObj []]
   \<and> validate (exampleEnv verifiedResult [] nameSchema)
       (subjectCopy (JBool False) pipeSubject) nameSchema = Inr ()
   \<and> getAndValidateSchemaIfPresent (exampleEnv verifiedResult [] nameSchema)
       (exampleCredential ''urn:cred:1''
          [(''credentialSubject'', pipeSubject), (''credentialSchema'', exampleSchemaRef)])
       exampleSchemaApi
     = Inl (Error ''Schema validation failed: Error: requires property name'')
   \<and> validatedSubjects E
       (exampleCredential ''urn:cred:1'' [(''credentialSubject'', JArr [])]) nameSchema
     = Inr [JObj []]"
  by (simp add: schema_step_defs exampleCredential_def pipeSubject_def nameSchema_def
      exampleEnv_def exampleSchemaRef_def exampleSchemaApi_def dec.simps [of 0] dec.simps [of "Suc 0"]
      numeral_2_eq_2)

lemma subjectCopy_object:
  "get_prop (subjectCopy reqID (JObj kvs)) k
     = (if \<not> truthy reqID \<and> k = ''id'' then Inr JUndefined else get_prop (JObj kvs) k)"
  by (simp add: subjectCopy_def delete_conv')

text \<open>
  What holds of claim C9: for a subject that is a non-empty array the copies of its
  elements are validated, in order, and for a subject object whose \<open>length\<close> is not
  truthy the copy of that object; a copy has the properties of its subject, without
  \<open>id\<close> unless \<open>requiresID\<close> is truthy, which for a \<open>required\<close> array says that
  it contains \<open>id\<close>.
\<close>

lemma validatedSubjects_well_formed:
  assumes "requiresID schema = Inr reqID"
  shows "(get_prop credential ''credentialSubject'' = Inr (JArr (x # xs))
          \<longrightarrow> validatedSubjects E credential schema = Inr (map (subjectCopy reqID) (x # xs)))
       \<and> (get_prop credential ''credentialSubject'' = Inr (JObj kvs)
          \<and> get_prop (JObj kvs) ''length'' = Inr l \<and> \<not> truthy l
          \<longrightarrow> validatedSubjects E credential schema = Inr [subjectCopy reqID (JObj kvs)])
       \<and> get_prop (subjectCopy reqID (JObj kvs)) k
           = (if \<not> truthy reqID \<and> k = ''id'' then Inr JUndefined else get_prop (JObj kvs) k)
       \<and> (get_prop schema ''required'' = Inr (JArr names)
          \<longrightarrow> reqID = JBool (JStr ''id'' \<in> set names))"
proof -
  have ix: "indexed E (JArr ys) = Inr ys" for ys
    by (simp add: indexed_array)
  have 1: "get_prop credential ''credentialSubject'' = Inr (JArr (x # xs))
      \<Longrightarrow> validatedSubjects E credential schema = Inr (map (subjectCopy reqID) (x # xs))"
    using assms ix [of "x # xs"] by (simp add: validatedSubjects_def subjectsOf_def)
  have 2: "get_prop credential ''credentialSubject'' = Inr (JObj kvs)
      \<Longrightarrow> get_prop (JObj kvs) ''length'' = Inr l \<Longrightarrow> \<not> truthy l
      \<Longrightarrow> validatedSubjects E credential schema = Inr [subjectCopy reqID (JObj kvs)]"
    using assms ix [of "[JObj kvs]"] by (simp add: validatedSubjects_def subjectsOf_def)
  have 3: "get_prop schema ''required'' = Inr (JArr names)
      \<Longrightarrow> reqID = JBool (JStr ''id'' \<in> set names)"
    using assms by (simp add: requiresID_def)
  show ?thesis using 1 2 3 subjectCopy_object by simp
qed


lemma validatedSubjects_well_formed_witness:
  "validatedSubjects (exampleEnv verifiedResult [] nameSchema)
       (exampleCredential ''urn:cred:1'' []) nameSchema
     = Inr [JObj [(''alumniOf'', JStr ''Example University'')]]
   \<and> validatedSubjects (exampleEnv verifiedResult [] nameSchema)
       (exampleCredential ''urn:cred:1''
          [(''credentialSubject'', JArr [pipeSubject, JObj [(''id'', JStr ''did:dock:other'')]])])
       (JObj [(''required'', JArr [JStr ''id''])])
     = Inr [pipeSubject, JObj [(''id'', JStr ''did:dock:other'')]]"
proof -
  let ?E = "exampleEnv verifiedResult [] nameSchema"
  let ?subject = "[(''id'', JStr ''did:dock:holder''), (''alumniOf'', JStr ''Example University'')]"
  let ?two = "[pipeSubject, JObj [(''id'', JStr ''did:dock:other'')]]"
  have r1: "requiresID nameSchema = Inr (JBool False)"
    by (simp add: requiresID_def nameSchema_def)
  have r2: "requiresID (JObj [(''required'', JArr [JStr ''id''])]) = Inr (JBool True)"
    by (simp add: requiresID_def)
  have s1: "get_prop (exampleCredential ''urn:cred:1'' []) ''credentialSubject'' = Inr (JObj ?subject)"
    by (simp add: exampleCredential_def)
  have s2: "get_prop (exampleCredential ''urn:cred:1'' [(''credentialSubject'', JArr ?two)])
      ''credentialSubject'' = Inr (JArr ?two)"
    by (simp add: exampleCredential_def)
  have l: "get_prop (JObj ?subject) ''length'' = Inr JUndefined" "\<not> truthy JUndefined"
    by simp_all
  have c1: "subjectCopy (JBool False) (JObj ?subject)
      = JObj [(''alumniOf'', JStr ''Example University'')]"
    by (simp add: subjectCopy_def)
  have c2: "map (subjectCopy (JBool True)) ?two = ?two"
    by (simp add: subjectCopy_def pipeSubject_def)
  show ?thesis
    using validatedSubjects_well_formed [OF r1, of "exampleCredential ''urn:cred:1'' []" _ _ ?E
        ?subject JUndefined] s1 l c1
      validatedSubjects_well_formed [OF r2,
        of "exampleCredential ''urn:cred:1'' [(''credentialSubject'', JArr ?two)]"
          pipeSubject "[JObj [(''id'', JStr ''did:dock:other'')]]" ?E] s2 c2
    by simp
qed

end
